theory Spec2Isabelle
  imports Complex_Main "HOL-Library.Sublist"
begin

section \<open>Values\<close>

text \<open>
  A NumPy \<^verbatim>\<open>float64\<close> is modelled as a real number, one of the two infinities, or NaN.
  Arithmetic on finite values is exact (no rounding and no overflow); the special values
  follow IEEE 754: NaN is absorbing, comparisons with NaN are false, \<open>inf - inf\<close>,
  \<open>0 * inf\<close>, \<open>0 / 0\<close> and \<open>inf / inf\<close> are NaN, and a non-zero value divided by zero
  is an infinity.
\<close>

datatype f64 = NaN | NInf | Fin real | PInf

fun isnan :: "f64 \<Rightarrow> bool" where
  "isnan NaN = True"
| "isnan _ = False"

fun isfinite :: "f64 \<Rightarrow> bool" where
  "isfinite (Fin _) = True"
| "isfinite _ = False"

fun fneg :: "f64 \<Rightarrow> f64" where
  "fneg NaN = NaN"
| "fneg NInf = PInf"
| "fneg PInf = NInf"
| "fneg (Fin a) = Fin (- a)"

fun fadd :: "f64 \<Rightarrow> f64 \<Rightarrow> f64" where
  "fadd NaN _ = NaN"
| "fadd _ NaN = NaN"
| "fadd PInf NInf = NaN"
| "fadd NInf PInf = NaN"
| "fadd PInf _ = PInf"
| "fadd _ PInf = PInf"
| "fadd NInf _ = NInf"
| "fadd _ NInf = NInf"
| "fadd (Fin a) (Fin b) = Fin (a + b)"

definition fsub :: "f64 \<Rightarrow> f64 \<Rightarrow> f64" where
  "fsub a b = fadd a (fneg b)"

text \<open>The sign of a non-NaN value: \<open>-1\<close>, \<open>0\<close> or \<open>1\<close>.\<close>

fun fsign :: "f64 \<Rightarrow> int" where
  "fsign NaN = 0"
| "fsign NInf = - 1"
| "fsign PInf = 1"
| "fsign (Fin a) = (if a < 0 then - 1 else if a = 0 then 0 else 1)"

definition signed_inf :: "int \<Rightarrow> f64" where
  "signed_inf s = (if s = 0 then NaN else if s < 0 then NInf else PInf)"

fun fmul :: "f64 \<Rightarrow> f64 \<Rightarrow> f64" where
  "fmul NaN _ = NaN"
| "fmul _ NaN = NaN"
| "fmul (Fin a) (Fin b) = Fin (a * b)"
| "fmul a b = signed_inf (fsign a * fsign b)"

fun fdiv :: "f64 \<Rightarrow> f64 \<Rightarrow> f64" where
  "fdiv NaN _ = NaN"
| "fdiv _ NaN = NaN"
| "fdiv (Fin a) (Fin b) = (if b = 0 then signed_inf (fsign (Fin a)) else Fin (a / b))"
| "fdiv (Fin a) _ = Fin 0"
| "fdiv a (Fin b) = signed_inf (fsign a * (if b < 0 then - 1 else 1))"
| "fdiv _ _ = NaN"

fun fabs :: "f64 \<Rightarrow> f64" where
  "fabs NaN = NaN"
| "fabs (Fin a) = Fin \<bar>a\<bar>"
| "fabs _ = PInf"

fun fsqrt :: "f64 \<Rightarrow> f64" where
  "fsqrt (Fin a) = (if a < 0 then NaN else Fin (sqrt a))"
| "fsqrt PInf = PInf"
| "fsqrt _ = NaN"

text \<open>Comparison \<open>a > b\<close> and \<open>a >= b\<close>; false as soon as one side is NaN.\<close>

fun fgt :: "f64 \<Rightarrow> f64 \<Rightarrow> bool" where
  "fgt NaN _ = False"
| "fgt _ NaN = False"
| "fgt (Fin a) (Fin b) = (a > b)"
| "fgt PInf b = (b \<noteq> PInf)"
| "fgt a NInf = (a \<noteq> NInf)"
| "fgt _ _ = False"

fun fge :: "f64 \<Rightarrow> f64 \<Rightarrow> bool" where
  "fge NaN _ = False"
| "fge _ NaN = False"
| "fge a b = (a = b \<or> fgt a b)"

text \<open>\<^verbatim>\<open>np.maximum\<close> and \<^verbatim>\<open>np.minimum\<close> propagate NaN.\<close>

definition np_maximum :: "f64 \<Rightarrow> f64 \<Rightarrow> f64" where
  "np_maximum a b = (if isnan a \<or> isnan b then NaN else if fgt b a then b else a)"

definition np_minimum :: "f64 \<Rightarrow> f64 \<Rightarrow> f64" where
  "np_minimum a b = (if isnan a \<or> isnan b then NaN else if fgt a b then b else a)"

text \<open>The largest finite \<^verbatim>\<open>float64\<close>, which \<^verbatim>\<open>np.nan_to_num\<close> puts in place of an infinity
  when no replacement is given.\<close>

definition float_max :: real where
  "float_max = (2 - 1 / 2 ^ 52) * 2 ^ 1023"

text \<open>\<^verbatim>\<open>np.nan_to_num(x, nan=0)\<close>.\<close>

fun nan_to_num :: "f64 \<Rightarrow> f64" where
  "nan_to_num NaN = Fin 0"
| "nan_to_num PInf = Fin float_max"
| "nan_to_num NInf = Fin (- float_max)"
| "nan_to_num (Fin a) = Fin a"

text \<open>\<^verbatim>\<open>np.nan_to_num(x, nan=0, posinf=0, neginf=0)\<close>, read as a real.\<close>

fun nan_to_num0 :: "f64 \<Rightarrow> real" where
  "nan_to_num0 (Fin a) = a"
| "nan_to_num0 _ = 0"

datatype py_error = IndexError | KeyError | ValueError | ZeroDivisionError

section \<open>Confidence tier (\<^verbatim>\<open>AnomalyPolygonizer.polygonize\<close>, \<^verbatim>\<open>ProcessingConfig\<close>)\<close>

datatype ConfidenceLevel = LOW | MEDIUM | HIGH

text \<open>A Python \<^verbatim>\<open>dict.get(key, default)\<close>.\<close>

definition dict_get :: "('k \<rightharpoonup> 'v) \<Rightarrow> 'k \<Rightarrow> 'v \<Rightarrow> 'v" where
  "dict_get d k dflt = (case d k of None \<Rightarrow> dflt | Some v \<Rightarrow> v)"

text \<open>The branch of \<^verbatim>\<open>polygonize\<close> that turns the mean probability of a region into its
  confidence level, given the dictionary \<^verbatim>\<open>conf_thresholds\<close>.\<close>

definition confidence_of :: "(string \<rightharpoonup> real) \<Rightarrow> f64 \<Rightarrow> ConfidenceLevel" where
  "confidence_of conf_thresholds mean_prob =
     (if fge mean_prob (Fin (dict_get conf_thresholds ''high'' 0.8)) then HIGH
      else if fge mean_prob (Fin (dict_get conf_thresholds ''medium'' 0.5)) then MEDIUM
      else LOW)"


section \<open>Chaikin smoothing (\<^verbatim>\<open>ContourGenerator._chaikin_smooth\<close>)\<close>

type_synonym point = "real \<times> real"

text \<open>\<^verbatim>\<open>np.allclose(a, b)\<close> on two points, with NumPy's default tolerances
  \<open>rtol = 1e-5\<close> and \<open>atol = 1e-8\<close>.\<close>

definition isclose :: "real \<Rightarrow> real \<Rightarrow> bool" where
  "isclose a b = (\<bar>a - b\<bar> \<le> 1 / 10 ^ 8 + \<bar>b\<bar> / 10 ^ 5)"

definition allclose :: "point \<Rightarrow> point \<Rightarrow> bool" where
  "allclose a b = (isclose (fst a) (fst b) \<and> isclose (snd a) (snd b))"

definition lerp :: "real \<Rightarrow> point \<Rightarrow> real \<Rightarrow> point \<Rightarrow> point" where
  "lerp a p b q = (a * fst p + b * fst q, a * snd p + b * snd q)"

text \<open>The inner loop over \<^verbatim>\<open>range(n - 1)\<close>: the two quarter points of every edge.\<close>

fun quarter_points :: "point list \<Rightarrow> point list" where
  "quarter_points (p0 # p1 # ps) =
     lerp 0.75 p0 0.25 p1 # lerp 0.25 p0 0.75 p1 # quarter_points (p1 # ps)"
| "quarter_points _ = []"

text \<open>One pass of the outer loop. Reading \<^verbatim>\<open>result[0]\<close> of an empty array raises.\<close>

definition chaikin_pass :: "point list \<Rightarrow> py_error + point list" where
  "chaikin_pass result =
     (if result = [] then Inl IndexError
      else Inr (quarter_points result @
                (if \<not> allclose (hd result) (last result) then [last result] else [])))"

fun chaikin_smooth :: "point list \<Rightarrow> nat \<Rightarrow> py_error + point list" where
  "chaikin_smooth coords 0 = Inr coords"
| "chaikin_smooth coords (Suc k) =
     (case chaikin_pass coords of
        Inl e \<Rightarrow> Inl e
      | Inr result \<Rightarrow> chaikin_smooth result k)"

text \<open>A path is closed when its first and last vertices coincide.\<close>

definition is_closed_path :: "point list \<Rightarrow> bool" where
  "is_closed_path ps = (ps \<noteq> [] \<and> hd ps = last ps)"

definition unit_square :: "point list" where
  "unit_square = [(0, 0), (0, 1), (1, 1), (1, 0), (0, 0)]"

section \<open>Arrays\<close>

text \<open>A two-dimensional NumPy array is the list of its rows; every row of a well-formed
  array has the same length.\<close>

type_synonym 'a grid = "'a list list"

definition nrows :: "'a grid \<Rightarrow> nat" where
  "nrows g = length g"

definition ncols :: "'a grid \<Rightarrow> nat" where
  "ncols g = (case g of [] \<Rightarrow> 0 | r # _ \<Rightarrow> length r)"

definition rect :: "'a grid \<Rightarrow> bool" where
  "rect g = list_all (\<lambda>r. length r = ncols g) g"

definition gat :: "'a grid \<Rightarrow> nat \<Rightarrow> nat \<Rightarrow> 'a" where
  "gat g i j = g ! i ! j"

text \<open>The array of shape \<open>(h, w)\<close> whose cell \<open>(i, j)\<close> is \<open>f i j\<close>.\<close>

definition tabulate2 :: "nat \<Rightarrow> nat \<Rightarrow> (nat \<Rightarrow> nat \<Rightarrow> 'a) \<Rightarrow> 'a grid" where
  "tabulate2 h w f = map (\<lambda>i. map (\<lambda>j. f i j) [0..<w]) [0..<h]"

definition gmap :: "('a \<Rightarrow> 'b) \<Rightarrow> 'a grid \<Rightarrow> 'b grid" where
  "gmap f g = map (map f) g"

definition gmap2 :: "('a \<Rightarrow> 'b \<Rightarrow> 'c) \<Rightarrow> 'a grid \<Rightarrow> 'b grid \<Rightarrow> 'c grid" where
  "gmap2 f a b = map2 (map2 f) a b"

text \<open>The slice \<^verbatim>\<open>g[r0:r1, c0:c1]\<close> for bounds inside the array.\<close>

definition grid_slice :: "'a grid \<Rightarrow> nat \<Rightarrow> nat \<Rightarrow> nat \<Rightarrow> nat \<Rightarrow> 'a grid" where
  "grid_slice g r0 r1 c0 c1 = map (\<lambda>row. take (c1 - c0) (drop c0 row)) (take (r1 - r0) (drop r0 g))"

text \<open>Boolean indexing \<^verbatim>\<open>g[mask]\<close>: the cells where the mask holds, in row-major order.\<close>

definition select_mask :: "'a grid \<Rightarrow> bool grid \<Rightarrow> 'a list" where
  "select_mask g bmask = map fst (filter snd (zip (concat g) (concat bmask)))"

section \<open>Order statistics\<close>

text \<open>\<open>a \<le> b\<close> on values that are not NaN.\<close>

definition fle :: "f64 \<Rightarrow> f64 \<Rightarrow> bool" where
  "fle a b = (\<not> fgt a b)"

fun finsert :: "f64 \<Rightarrow> f64 list \<Rightarrow> f64 list" where
  "finsert x [] = [x]"
| "finsert x (y # ys) = (if fle x y then x # y # ys else y # finsert x ys)"

definition fsort :: "f64 list \<Rightarrow> f64 list" where
  "fsort xs = foldr finsert xs []"

text \<open>\<^verbatim>\<open>np.median\<close> of a flat array: NaN when the array is empty or holds a NaN, otherwise the
  middle value of the sorted array, or the mean of the two middle values.\<close>

definition np_median :: "f64 list \<Rightarrow> f64" where
  "np_median xs =
     (if xs = [] \<or> list_ex isnan xs then NaN
      else let s = fsort xs; n = length s in
        if odd n then s ! (n div 2)
        else fdiv (fadd (s ! (n div 2 - 1)) (s ! (n div 2))) (Fin 2))"

definition np_nanmedian :: "f64 list \<Rightarrow> f64" where
  "np_nanmedian xs = np_median (filter (\<lambda>x. \<not> isnan x) xs)"






section \<open>Sounding selection (\<^verbatim>\<open>SoundingSelector.select_from_grid\<close>)\<close>


text \<open>The six coefficients \<open>(a, b, c, d, e, f)\<close> of an affine transform, and its application
  to a pixel position \<open>(col, row)\<close>.\<close>

type_synonym affine = "real \<times> real \<times> real \<times> real \<times> real \<times> real"










text \<open>Running a loop body over a list of items: the first exception ends the loop, a
  \<^verbatim>\<open>continue\<close> adds nothing.\<close>

fun collect :: "('a \<Rightarrow> py_error + 'b option) \<Rightarrow> 'a list \<Rightarrow> py_error + 'b list" where
  "collect f [] = Inr []"
| "collect f (x # xs) =
     (case f x of
        Inl e \<Rightarrow> Inl e
      | Inr r \<Rightarrow>
         (case collect f xs of
            Inl e \<Rightarrow> Inl e
          | Inr rs \<Rightarrow> Inr (case r of None \<Rightarrow> rs | Some y \<Rightarrow> y # rs)))"






section \<open>Feature extraction (\<^verbatim>\<open>FeatureExtractor\<close>)\<close>

text \<open>The configuration values the pipeline reads; \<open>None\<close> is a key that the configuration
  does not hold, for which the code falls back on the default of its \<^verbatim>\<open>get\<close>.\<close>

datatype max_samples = Auto | Samples real

record ProcessingConfig =
  neighborhood_window_size :: "nat option"
  roughness_window_size :: "nat option"
  isolation_forest_enabled :: "bool option"
  n_estimators :: "nat option"
  contamination :: "real option"
  forest_max_samples :: "max_samples option"
  random_state :: "int option"
  n_jobs :: "int option"
  zscore_enabled :: "bool option"
  use_mad :: "bool option"
  mad_threshold :: "real option"
  zscore_threshold :: "real option"
  scoring_weights :: "(string \<rightharpoonup> real) option"
  scoring_priority :: "(string \<rightharpoonup> real) option"
  scoring_confidence_thresholds :: "(string \<rightharpoonup> real) option"
  polygons_anomaly_threshold :: "real option"
  min_area_pixels :: "int option"
  simplify_tolerance :: "real option"

text \<open>\<^verbatim>\<open>config.get(..., default=v)\<close>.\<close>

definition get_or :: "'a option \<Rightarrow> 'a \<Rightarrow> 'a" where
  "get_or v dflt = (case v of None \<Rightarrow> dflt | Some x \<Rightarrow> x)"

definition fsum :: "f64 list \<Rightarrow> f64" where
  "fsum xs = foldr fadd xs (Fin 0)"

text \<open>Reading an array at a position that may lie outside it: \<^verbatim>\<open>mode='constant'\<close> pads
  with zero, \<^verbatim>\<open>mode='reflect'\<close> mirrors the array about its edge.\<close>

definition inside :: "'a grid \<Rightarrow> int \<Rightarrow> int \<Rightarrow> bool" where
  "inside g i j = (0 \<le> i \<and> i < int (nrows g) \<and> 0 \<le> j \<and> j < int (ncols g))"

definition pad_constant :: "f64 grid \<Rightarrow> int \<Rightarrow> int \<Rightarrow> f64" where
  "pad_constant g i j = (if inside g i j then gat g (nat i) (nat j) else Fin 0)"

definition reflect_index :: "nat \<Rightarrow> int \<Rightarrow> nat" where
  "reflect_index n i = nat (if i < 0 then - i - 1 else if i \<ge> int n then 2 * int n - 1 - i else i)"

definition pad_reflect :: "f64 grid \<Rightarrow> int \<Rightarrow> int \<Rightarrow> f64" where
  "pad_reflect g i j = gat g (reflect_index (nrows g) i) (reflect_index (ncols g) j)"

text \<open>\<^verbatim>\<open>ndimage.convolve(a, np.ones((w, w)) / w**2, mode='constant')\<close>: the mean over the
  \<open>w \<times> w\<close> window around each cell, cells outside the array counting as zero. For an even
  \<open>w\<close> the window reaches one cell further down and right than up and left.\<close>

definition window_offsets :: "nat \<Rightarrow> int list" where
  "window_offsets w = map (\<lambda>k. int k - int ((w - 1) div 2)) [0..<w]"

definition convolve_uniform :: "nat \<Rightarrow> f64 grid \<Rightarrow> f64 grid" where
  "convolve_uniform w a =
     tabulate2 (nrows a) (ncols a) (\<lambda>i j.
       fsum (concat (map (\<lambda>di. map (\<lambda>dj.
               fmul (Fin (1 / real (w ^ 2))) (pad_constant a (int i + di) (int j + dj)))
             (window_offsets w)) (window_offsets w))))"

text \<open>\<^verbatim>\<open>ndimage.correlate1d(a, [w0, w1, w2], axis, mode='reflect')\<close>.\<close>

definition correlate3 :: "real \<times> real \<times> real \<Rightarrow> nat \<Rightarrow> f64 grid \<Rightarrow> f64 grid" where
  "correlate3 ws axis a =
     (case ws of (w0, w1, w2) \<Rightarrow>
      tabulate2 (nrows a) (ncols a) (\<lambda>i j.
        let rd = (\<lambda>k. if axis = 0 then pad_reflect a (int i + k) (int j)
                       else pad_reflect a (int i) (int j + k))
        in fadd (fadd (fmul (Fin w0) (rd (- 1))) (fmul (Fin w1) (rd 0))) (fmul (Fin w2) (rd 1))))"

text \<open>\<^verbatim>\<open>ndimage.sobel(a, axis)\<close>: the difference \<open>[-1, 0, 1]\<close> along the axis, then the
  smoothing \<open>[1, 2, 1]\<close> along the other axis. \<^verbatim>\<open>ndimage.laplace(a)\<close>: the sum over both
  axes of the second difference \<open>[1, -2, 1]\<close>.\<close>

definition sobel :: "nat \<Rightarrow> f64 grid \<Rightarrow> f64 grid" where
  "sobel axis a = correlate3 (1, 2, 1) (1 - axis) (correlate3 (- 1, 0, 1) axis a)"

definition laplace :: "f64 grid \<Rightarrow> f64 grid" where
  "laplace a = gmap2 fadd (correlate3 (1, - 2, 1) 0 a) (correlate3 (1, - 2, 1) 1 a)"

text \<open>The assignment \<^verbatim>\<open>a[~valid_mask] = np.nan\<close>.\<close>

definition set_nan_where_invalid :: "bool grid \<Rightarrow> f64 grid \<Rightarrow> f64 grid" where
  "set_nan_where_invalid valid_mask a = gmap2 (\<lambda>v x. if v then x else NaN) valid_mask a"

definition bool_to_float :: "bool \<Rightarrow> f64" where
  "bool_to_float b = (if b then Fin 1 else Fin 0)"

definition fsquare :: "f64 \<Rightarrow> f64" where
  "fsquare x = fmul x x"

text \<open>The local mean and the local variance (before the square root) that
  \<^verbatim>\<open>_compute_local_zscore\<close>, \<^verbatim>\<open>_compute_roughness\<close> and \<^verbatim>\<open>_compute_neighbor_stats\<close> each
  compute with the same statements.\<close>

definition local_mean_var :: "nat \<Rightarrow> f64 grid \<Rightarrow> f64 grid \<times> f64 grid" where
  "local_mean_var window_size data =
     (let valid_mask = gmap (\<lambda>v. \<not> isnan v) data;
          data_filled = gmap nan_to_num data;
          masked = gmap2 (\<lambda>x v. fmul x (bool_to_float v)) data_filled valid_mask;
          local_sum = convolve_uniform window_size masked;
          local_count = gmap (\<lambda>c. np_maximum c (Fin (1 / 10 ^ 10)))
                          (convolve_uniform window_size (gmap bool_to_float valid_mask));
          local_mean = gmap2 fdiv local_sum local_count;
          masked_sq = gmap2 (\<lambda>x v. fmul (fsquare x) (bool_to_float v)) data_filled valid_mask;
          local_sq_sum = convolve_uniform window_size masked_sq;
          local_var = gmap2 fsub (gmap2 fdiv local_sq_sum local_count) (gmap fsquare local_mean)
      in (local_mean, local_var))"

definition compute_local_zscore :: "ProcessingConfig \<Rightarrow> f64 grid \<Rightarrow> f64 grid" where
  "compute_local_zscore cfg data =
     (let window_size = get_or (neighborhood_window_size cfg) 5;
          valid_mask = gmap (\<lambda>v. \<not> isnan v) data;
          mv = local_mean_var window_size data;
          local_std = gmap (\<lambda>v. np_maximum (fsqrt (np_maximum v (Fin 0))) (Fin (1 / 10 ^ 10)))
                        (snd mv);
          z_score = gmap2 fdiv (gmap2 fsub data (fst mv)) local_std
      in set_nan_where_invalid valid_mask z_score)"

definition compute_slope :: "f64 grid \<Rightarrow> f64 grid" where
  "compute_slope data =
     (let dx = sobel 1 data;
          dy = sobel 0 data;
          slope = gmap2 (\<lambda>x y. fsqrt (fadd (fsquare x) (fsquare y))) dx dy
      in set_nan_where_invalid (gmap (\<lambda>v. \<not> isnan v) data) slope)"

definition compute_curvature :: "f64 grid \<Rightarrow> f64 grid" where
  "compute_curvature data =
     (let d2x = sobel 1 (sobel 1 data);
          d2y = sobel 0 (sobel 0 data);
          curvature = gmap2 (\<lambda>x y. fdiv (fadd (fabs x) (fabs y)) (Fin 2)) d2x d2y
      in set_nan_where_invalid (gmap (\<lambda>v. \<not> isnan v) data) curvature)"

definition compute_roughness :: "ProcessingConfig \<Rightarrow> f64 grid \<Rightarrow> f64 grid" where
  "compute_roughness cfg data =
     (let window_size = get_or (roughness_window_size cfg) 3;
          valid_mask = gmap (\<lambda>v. \<not> isnan v) data;
          mv = local_mean_var window_size data;
          roughness = gmap (\<lambda>v. fsqrt (np_maximum v (Fin 0))) (snd mv)
      in set_nan_where_invalid valid_mask roughness)"

definition compute_laplacian :: "f64 grid \<Rightarrow> f64 grid" where
  "compute_laplacian data =
     (let laplacian = laplace (gmap nan_to_num data)
      in set_nan_where_invalid (gmap (\<lambda>v. \<not> isnan v) data) laplacian)"

definition compute_neighbor_stats :: "ProcessingConfig \<Rightarrow> f64 grid \<Rightarrow> f64 grid \<times> f64 grid" where
  "compute_neighbor_stats cfg data =
     (let window_size = get_or (neighborhood_window_size cfg) 5;
          valid_mask = gmap (\<lambda>v. \<not> isnan v) data;
          mv = local_mean_var window_size data;
          neighbor_std = gmap (\<lambda>v. fsqrt (np_maximum v (Fin 0))) (snd mv)
      in (set_nan_where_invalid valid_mask (fst mv),
          set_nan_where_invalid valid_mask neighbor_std))"

text \<open>The feature dictionary, in the order of insertion.\<close>

definition extract_features :: "ProcessingConfig \<Rightarrow> f64 grid \<Rightarrow> (string \<times> f64 grid) list" where
  "extract_features cfg data =
     [(''z_score'', compute_local_zscore cfg data),
      (''slope'', compute_slope data),
      (''curvature'', compute_curvature data),
      (''roughness'', compute_roughness cfg data),
      (''laplacian'', compute_laplacian data),
      (''neighbor_mean'', fst (compute_neighbor_stats cfg data)),
      (''neighbor_std'', snd (compute_neighbor_stats cfg data))]"

text \<open>A configuration that holds no key: every \<^verbatim>\<open>get\<close> returns its default.\<close>

definition empty_config :: ProcessingConfig where
  "empty_config = \<lparr>neighborhood_window_size = None, roughness_window_size = None,
     isolation_forest_enabled = None, n_estimators = None, contamination = None,
     forest_max_samples = None, random_state = None, n_jobs = None, zscore_enabled = None,
     use_mad = None, mad_threshold = None, zscore_threshold = None, scoring_weights = None,
     scoring_priority = None, scoring_confidence_thresholds = None,
     polygons_anomaly_threshold = None, min_area_pixels = None, simplify_tolerance = None\<rparr>"

definition nodata_centre :: "f64 grid" where
  "nodata_centre = [[Fin 1, Fin 2, Fin 3], [Fin 4, NaN, Fin 6], [Fin 7, Fin 8, Fin 9]]"

definition all_nan3 :: "f64 grid" where
  "all_nan3 = [[NaN, NaN, NaN], [NaN, NaN, NaN], [NaN, NaN, NaN]]"

section \<open>Statistics (\<^verbatim>\<open>RasterProcessor.compute_statistics\<close>)\<close>

record statistics =
  z_min :: "f64 option"
  z_max :: "f64 option"
  z_mean :: "f64 option"
  z_std :: "f64 option"
  z_median :: "f64 option"
  valid_count :: nat
  nodata_count :: nat
  total_count :: nat

text \<open>\<^verbatim>\<open>np.nanmin\<close>, \<^verbatim>\<open>np.nanmax\<close>, \<^verbatim>\<open>np.nanmean\<close> and \<^verbatim>\<open>np.nanstd\<close> of a flat array that holds
  at least one value that is not NaN.\<close>

definition np_nanmin :: "f64 list \<Rightarrow> f64" where
  "np_nanmin xs = (let v = filter (\<lambda>x. \<not> isnan x) xs in fold np_minimum (tl v) (hd v))"

definition np_nanmax :: "f64 list \<Rightarrow> f64" where
  "np_nanmax xs = (let v = filter (\<lambda>x. \<not> isnan x) xs in fold np_maximum (tl v) (hd v))"

definition np_mean :: "f64 list \<Rightarrow> f64" where
  "np_mean xs = fdiv (fsum xs) (Fin (real (length xs)))"

definition np_std :: "f64 list \<Rightarrow> f64" where
  "np_std xs = fsqrt (np_mean (map (\<lambda>x. fsquare (fabs (fsub x (np_mean xs)))) xs))"

definition np_nanmean :: "f64 list \<Rightarrow> f64" where
  "np_nanmean xs = np_mean (filter (\<lambda>x. \<not> isnan x) xs)"

definition np_nanstd :: "f64 list \<Rightarrow> f64" where
  "np_nanstd xs = np_std (filter (\<lambda>x. \<not> isnan x) xs)"

definition compute_statistics :: "f64 grid \<Rightarrow> statistics" where
  "compute_statistics data =
     (let flat = concat data;
          valid_data = filter (\<lambda>v. \<not> isnan v) flat
      in if length valid_data = 0 then
           \<lparr>z_min = None, z_max = None, z_mean = None, z_std = None, z_median = None,
            valid_count = 0, nodata_count = length (filter isnan flat),
            total_count = length flat\<rparr>
         else
           \<lparr>z_min = Some (np_nanmin flat), z_max = Some (np_nanmax flat),
            z_mean = Some (np_nanmean flat), z_std = Some (np_nanstd flat),
            z_median = Some (np_nanmedian flat),
            valid_count = length valid_data, nodata_count = length (filter isnan flat),
            total_count = length flat\<rparr>)"

section \<open>Anomaly detection (\<^verbatim>\<open>AnomalyDetector\<close>)\<close>

record DetectionResult =
  anomaly_mask :: "bool grid"
  score_grid :: "f64 grid"
  detector_results :: "(string \<times> f64 grid) list"

definition shape :: "'a grid \<Rightarrow> nat \<times> nat" where
  "shape g = (nrows g, ncols g)"

definition zeros :: "nat \<times> nat \<Rightarrow> f64 grid" where
  "zeros s = replicate (fst s) (replicate (snd s) (Fin 0))"

text \<open>Two arrays have the same shape when their rows have the same lengths.\<close>

definition same_shape :: "'a grid \<Rightarrow> 'b grid \<Rightarrow> bool" where
  "same_shape a b = (map length a = map length b)"

text \<open>Boolean indexing \<^verbatim>\<open>a[mask]\<close> raises IndexError when the shapes differ.\<close>

definition bool_index :: "'a grid \<Rightarrow> bool grid \<Rightarrow> py_error + 'a list" where
  "bool_index a bmask = (if same_shape a bmask then Inr (select_mask a bmask) else Inl IndexError)"

text \<open>The assignment \<^verbatim>\<open>result[valid_mask] = scores\<close> into an array of zeros: the
  values fill the cells where the mask holds, in row-major order.\<close>

fun scatter_row :: "bool list \<Rightarrow> f64 list \<Rightarrow> f64 list \<times> f64 list" where
  "scatter_row [] vs = ([], vs)"
| "scatter_row (True # ms) (v # vs) = (case scatter_row ms vs of (r, rest) \<Rightarrow> (v # r, rest))"
| "scatter_row (True # ms) [] = (case scatter_row ms [] of (r, rest) \<Rightarrow> (Fin 0 # r, rest))"
| "scatter_row (False # ms) vs = (case scatter_row ms vs of (r, rest) \<Rightarrow> (Fin 0 # r, rest))"

fun scatter :: "bool grid \<Rightarrow> f64 list \<Rightarrow> f64 grid" where
  "scatter [] vs = []"
| "scatter (m # ms) vs = (case scatter_row m vs of (r, rest) \<Rightarrow> r # scatter ms rest)"

text \<open>
  The isolation forest of scikit-learn is a parameter of the model: a function from the
  constructor's arguments and the sample matrix \<open>X\<close> to the values
  \<^verbatim>\<open>model.fit(X).decision_function(X)\<close>, one finite value per row of \<open>X\<close>. With an integer
  \<^verbatim>\<open>random_state\<close> the library computes the same values on every call, which is what makes
  it a function.
\<close>

record forest_params =
  fp_n_estimators :: nat
  fp_contamination :: real
  fp_max_samples :: max_samples
  fp_random_state :: int
  fp_n_jobs :: int

type_synonym forest = "forest_params \<Rightarrow> real list list \<Rightarrow> real list"

definition isolation_forest_config :: "ProcessingConfig \<Rightarrow> forest_params" where
  "isolation_forest_config cfg =
     \<lparr>fp_n_estimators = get_or (n_estimators cfg) 100,
      fp_contamination = get_or (contamination cfg) 0.1,
      fp_max_samples = get_or (forest_max_samples cfg) Auto,
      fp_random_state = get_or (random_state cfg) 42,
      fp_n_jobs = get_or (n_jobs cfg) (- 1)\<rparr>"

text \<open>The loop that builds \<^verbatim>\<open>feature_list\<close> from the features that are present.\<close>

fun gather_features ::
  "(string \<times> f64 grid) list \<Rightarrow> bool grid \<Rightarrow> string list \<Rightarrow> py_error + f64 list list" where
  "gather_features features valid_mask [] = Inr []"
| "gather_features features valid_mask (name # names) =
     (case map_of features name of
        None \<Rightarrow> gather_features features valid_mask names
      | Some f \<Rightarrow>
         (case bool_index f valid_mask of
            Inl e \<Rightarrow> Inl e
          | Inr col \<Rightarrow>
             (case gather_features features valid_mask names of
                Inl e \<Rightarrow> Inl e
              | Inr cols \<Rightarrow> Inr (col # cols))))"

text \<open>\<^verbatim>\<open>_run_isolation_forest\<close>. \<^verbatim>\<open>np.column_stack\<close> of equally long columns is their
  transpose. Fitting the forest on a matrix without rows raises ValueError (scikit-learn
  asks for at least one sample), and so does assigning scores whose number is not the
  number of valid cells.\<close>

definition run_isolation_forest ::
  "forest \<Rightarrow> ProcessingConfig \<Rightarrow> f64 grid \<Rightarrow> (string \<times> f64 grid) list \<Rightarrow> py_error + f64 grid" where
  "run_isolation_forest forest cfg data features =
     (let config = isolation_forest_config cfg;
          valid_mask = gmap (\<lambda>v. \<not> isnan v) data;
          feature_names = [''z_score'', ''slope'', ''curvature'', ''roughness'', ''laplacian'']
      in case gather_features features valid_mask feature_names of
           Inl e \<Rightarrow> Inl e
         | Inr feature_list \<Rightarrow>
            if feature_list = [] then Inr (zeros (shape data))
            else
              let X = map (map nan_to_num0) (transpose feature_list) in
              if X = [] then Inl ValueError
              else
                let scores = map uminus (forest config X) in
                if length scores \<noteq> length X then Inl ValueError
                else
                  let lo = Min (set scores); hi = Max (set scores);
                      scores = map (\<lambda>s. (s - lo) / (hi - lo + 1 / 10 ^ 10)) scores
                  in Inr (scatter valid_mask (map Fin scores)))"

text \<open>\<^verbatim>\<open>_run_zscore_detector\<close>; \<^verbatim>\<open>median_abs_deviation\<close> of an array without NaN is the
  median of the absolute deviations from the median.\<close>

definition run_zscore_detector :: "ProcessingConfig \<Rightarrow> f64 grid \<Rightarrow> f64 grid" where
  "run_zscore_detector cfg z_score =
     (if get_or (use_mad cfg) True then
        let valid = filter (\<lambda>v. \<not> isnan v) (concat z_score) in
        if length valid = 0 then zeros (shape z_score)
        else
          let median = np_median valid;
              mad = np_median (map (\<lambda>v. fabs (fsub v median)) valid);
              threshold = get_or (mad_threshold cfg) 3.5;
              scores = (if fgt (Fin (1 / 10 ^ 10)) mad
                        then gmap (\<lambda>z. fabs (fsub z median)) z_score
                        else gmap (\<lambda>z. fdiv (fabs (fsub z median)) mad) z_score);
              scores = gmap (\<lambda>s. np_minimum (fdiv s (Fin threshold)) (Fin 1)) scores
          in gmap nan_to_num scores
      else
        let threshold = get_or (zscore_threshold cfg) 3;
            scores = gmap (\<lambda>z. fdiv (fabs z) (Fin threshold)) z_score;
            scores = gmap (\<lambda>s. np_minimum s (Fin 1)) scores
        in gmap nan_to_num scores)"

text \<open>\<^verbatim>\<open>_combine_scores\<close>: the loop over the detector results keeps the running sum and the
  total weight; adding arrays of different shapes raises ValueError.\<close>

definition default_weights :: "string \<rightharpoonup> real" where
  "default_weights =
     [''isolation_forest'' \<mapsto> 0.5, ''zscore'' \<mapsto> 0.3, ''spatial_consistency'' \<mapsto> 0.2]"

fun accumulate_scores ::
  "(string \<rightharpoonup> real) \<Rightarrow> (string \<times> f64 grid) list \<Rightarrow> f64 grid \<times> real
     \<Rightarrow> py_error + f64 grid \<times> real" where
  "accumulate_scores weights [] acc = Inr acc"
| "accumulate_scores weights ((detector, score) # rest) (combined, total_weight) =
     (let weight = dict_get weights detector 0.1 in
      if \<not> same_shape combined score then Inl ValueError
      else accumulate_scores weights rest
             (gmap2 (\<lambda>c s. fadd c (fmul (Fin weight) s)) combined score, total_weight + weight))"

definition combine_scores ::
  "ProcessingConfig \<Rightarrow> (string \<times> f64 grid) list \<Rightarrow> nat \<times> nat \<Rightarrow> py_error + f64 grid" where
  "combine_scores cfg results shp =
     (let weights = get_or (scoring_weights cfg) default_weights in
      case accumulate_scores weights results (zeros shp, 0) of
        Inl e \<Rightarrow> Inl e
      | Inr (combined, total_weight) \<Rightarrow>
          if total_weight > 0 then Inr (gmap (\<lambda>c. fdiv c (Fin total_weight)) combined)
          else Inr combined)"

definition anomaly_threshold :: "ProcessingConfig \<Rightarrow> real" where
  "anomaly_threshold cfg = get_or (polygons_anomaly_threshold cfg) 0.6"

text \<open>\<^verbatim>\<open>detect\<close>. Reading \<^verbatim>\<open>features["z_score"]\<close> raises KeyError when the key is missing.\<close>

definition detect ::
  "forest \<Rightarrow> ProcessingConfig \<Rightarrow> f64 grid \<Rightarrow> (string \<times> f64 grid) list
     \<Rightarrow> py_error + DetectionResult" where
  "detect forest cfg data features =
     (case (if get_or (isolation_forest_enabled cfg) True
            then (case run_isolation_forest forest cfg data features of
                    Inl e \<Rightarrow> Inl e
                  | Inr r \<Rightarrow> Inr [(''isolation_forest'', r)])
            else Inr []) of
        Inl e \<Rightarrow> Inl e
      | Inr results1 \<Rightarrow>
         (case (if get_or (zscore_enabled cfg) True
                then (case map_of features ''z_score'' of
                        None \<Rightarrow> Inl KeyError
                      | Some z \<Rightarrow> Inr (results1 @ [(''zscore'', run_zscore_detector cfg z)]))
                else Inr results1) of
            Inl e \<Rightarrow> Inl e
          | Inr results \<Rightarrow>
             (case combine_scores cfg results (shape data) of
                Inl e \<Rightarrow> Inl e
              | Inr final_score \<Rightarrow>
                 (let threshold = anomaly_threshold cfg;
                      above = gmap (\<lambda>s. fgt s (Fin threshold)) final_score;
                      mask = gmap2 (\<lambda>m v. m \<and> \<not> isnan v) above data
                  in if \<not> same_shape above data then Inl IndexError
                     else Inr \<lparr>anomaly_mask = mask, score_grid = final_score,
                               detector_results = results\<rparr>))))"

section \<open>Polygonization (\<^verbatim>\<open>AnomalyPolygonizer\<close>)\<close>

datatype AnomalyType = SPIKE | HOLE | SEAM | NOISE_BAND | DISCONTINUITY | DENSITY_GAP | UNKNOWN

datatype ReviewDecision = PENDING | ACCEPTED | REJECTED

record explanation =
  exp_primary_reason :: string
  exp_features :: "(string \<times> f64) list"
  exp_thresholds :: "(string \<times> real) list"
  exp_detector_flags :: "string list"
  exp_pixel_count :: nat

text \<open>The anomaly entity; \<open>'g\<close> is the type of geometries.\<close>

record 'g Anomaly =
  anomaly_id :: nat
  run_id :: nat
  centroid_x :: real
  centroid_y :: real
  geometry :: 'g
  area_sq_meters :: real
  anomaly_type :: AnomalyType
  anomaly_probability :: f64
  confidence_level :: ConfidenceLevel
  qc_priority :: f64
  explanation :: explanation
  local_depth_mean :: "f64 option"
  local_depth_std :: "f64 option"
  neighbor_count :: nat
  review_decision :: ReviewDecision
  created_at :: real

record metadata =
  md_transform :: "affine option"
  md_resolution :: "(real \<times> real) option"
  md_crs :: "string option"

text \<open>
  What the run takes from outside. The geometry libraries (rasterio, shapely, pyproj) are
  functions on an abstract type of geometries: \<open>lib_shapes\<close> is the first shape of value 1
  that \<^verbatim>\<open>rasterio.features.shapes\<close> yields for a component mask under a transform, if any;
  \<open>lib_transformer\<close> is the transformer to EPSG:4326 for a source CRS, \<open>None\<close> when its
  construction raises, and the transformer applied to a geometry is \<open>None\<close> when the
  reprojection raises. The environment gives the values of the successive calls of
  \<^verbatim>\<open>uuid4()\<close> and \<^verbatim>\<open>datetime.utcnow()\<close>.
\<close>

record 'g geometry_lib =
  lib_shapes :: "bool grid \<Rightarrow> affine \<Rightarrow> 'g option"
  lib_transformer :: "string \<Rightarrow> ('g \<Rightarrow> 'g option) option"
  lib_simplify :: "real \<Rightarrow> 'g \<Rightarrow> 'g"
  lib_centroid :: "'g \<Rightarrow> real \<times> real"

record environment =
  uuid4 :: "nat \<Rightarrow> nat"
  utcnow :: "nat \<Rightarrow> real"

subsection \<open>Binary morphology and labelling (\<^verbatim>\<open>scipy.ndimage\<close>)\<close>

text \<open>A mask read at a position that may lie outside it; outside counts as false.\<close>

definition pad_false :: "bool grid \<Rightarrow> int \<Rightarrow> int \<Rightarrow> bool" where
  "pad_false m i j = (inside m i j \<and> gat m (nat i) (nat j))"

definition offsets3 :: "int list" where
  "offsets3 = [- 1, 0, 1]"

text \<open>\<^verbatim>\<open>binary_erosion\<close> and \<^verbatim>\<open>binary_dilation\<close> with the structure \<^verbatim>\<open>np.ones((3, 3))\<close> and
  border value zero; \<^verbatim>\<open>binary_opening\<close> is the erosion followed by the dilation.\<close>

definition binary_erosion :: "bool grid \<Rightarrow> bool grid" where
  "binary_erosion m =
     tabulate2 (nrows m) (ncols m) (\<lambda>i j.
       list_all (\<lambda>di. list_all (\<lambda>dj. pad_false m (int i + di) (int j + dj)) offsets3) offsets3)"

definition binary_dilation :: "bool grid \<Rightarrow> bool grid" where
  "binary_dilation m =
     tabulate2 (nrows m) (ncols m) (\<lambda>i j.
       list_ex (\<lambda>di. list_ex (\<lambda>dj. pad_false m (int i + di) (int j + dj)) offsets3) offsets3)"

definition binary_opening :: "bool grid \<Rightarrow> bool grid" where
  "binary_opening m = binary_dilation (binary_erosion m)"

text \<open>
  \<^verbatim>\<open>ndimage.label\<close> with its default structure: the components of the true cells under
  orthogonal adjacency, numbered from 1 in the row-major order of their first cells. A
  component is grown from its first cell, one ring of neighbours at a time, for as many
  rounds as the array has cells.
\<close>

definition all_cells :: "nat \<Rightarrow> nat \<Rightarrow> (nat \<times> nat) list" where
  "all_cells h w = concat (map (\<lambda>i. map (\<lambda>j. (i, j)) [0..<w]) [0..<h])"

definition adjacent4 :: "nat \<times> nat \<Rightarrow> nat \<times> nat \<Rightarrow> bool" where
  "adjacent4 p q =
     ((fst p = fst q \<and> (snd p = Suc (snd q) \<or> snd q = Suc (snd p)))
      \<or> (snd p = snd q \<and> (fst p = Suc (fst q) \<or> fst q = Suc (fst p))))"

definition grow :: "bool grid \<Rightarrow> (nat \<times> nat) list \<Rightarrow> (nat \<times> nat) list" where
  "grow m cells =
     filter (\<lambda>q. gat m (fst q) (snd q) \<and> (q \<in> set cells \<or> list_ex (\<lambda>p. adjacent4 p q) cells))
       (all_cells (nrows m) (ncols m))"

definition component :: "bool grid \<Rightarrow> nat \<times> nat \<Rightarrow> (nat \<times> nat) list" where
  "component m p = (grow m ^^ (nrows m * ncols m)) [p]"

fun find_components ::
  "bool grid \<Rightarrow> (nat \<times> nat) list \<Rightarrow> (nat \<times> nat) list list \<Rightarrow> (nat \<times> nat) list list" where
  "find_components m [] found = found"
| "find_components m (p # ps) found =
     (if gat m (fst p) (snd p) \<and> \<not> list_ex (\<lambda>c. p \<in> set c) found
      then find_components m ps (found @ [component m p])
      else find_components m ps found)"

fun label_of :: "(nat \<times> nat) list list \<Rightarrow> nat \<times> nat \<Rightarrow> nat" where
  "label_of [] p = 0"
| "label_of (c # cs) p =
     (if p \<in> set c then 1 else (case label_of cs p of 0 \<Rightarrow> 0 | Suc n \<Rightarrow> Suc (Suc n)))"

definition ndimage_label :: "bool grid \<Rightarrow> nat grid \<times> nat" where
  "ndimage_label m =
     (let found = find_components m (all_cells (nrows m) (ncols m)) []
      in (tabulate2 (nrows m) (ncols m) (\<lambda>i j. if gat m i j then label_of found (i, j) else 0),
          length found))"

text \<open>\<^verbatim>\<open>ndimage.find_objects\<close>: for every label from 1 to the largest one, the bounding box
  \<open>(row start, row stop, column start, column stop)\<close> of its cells, or \<open>None\<close> for a label
  without cells.\<close>

definition bounding_box :: "(nat \<times> nat) list \<Rightarrow> (nat \<times> nat \<times> nat \<times> nat) option" where
  "bounding_box cells =
     (if cells = [] then None
      else Some (Min (set (map fst cells)), Suc (Max (set (map fst cells))),
                 Min (set (map snd cells)), Suc (Max (set (map snd cells)))))"

definition cells_labelled :: "nat grid \<Rightarrow> nat \<Rightarrow> (nat \<times> nat) list" where
  "cells_labelled labeled k =
     filter (\<lambda>p. gat labeled (fst p) (snd p) = k) (all_cells (nrows labeled) (ncols labeled))"

definition find_objects :: "nat grid \<Rightarrow> (nat \<times> nat \<times> nat \<times> nat) option list" where
  "find_objects labeled =
     map (\<lambda>k. bounding_box (cells_labelled labeled k)) [1..<Suc (fold max (concat labeled) 0)]"

subsection \<open>Scores of a region\<close>

text \<open>Python's \<^verbatim>\<open>min(a, b)\<close>: the second argument only when it is smaller than the first.\<close>

definition py_min :: "f64 \<Rightarrow> f64 \<Rightarrow> f64" where
  "py_min a b = (if fgt a b then b else a)"

definition default_priority_weights :: "string \<rightharpoonup> real" where
  "default_priority_weights =
     [''score_weight'' \<mapsto> 0.5, ''depth_variance_weight'' \<mapsto> 0.3, ''cluster_weight'' \<mapsto> 0.2]"

definition calculate_priority :: "ProcessingConfig \<Rightarrow> f64 \<Rightarrow> real \<Rightarrow> f64 list \<Rightarrow> f64" where
  "calculate_priority cfg mean_prob area local_depths =
     (let weights = get_or (scoring_priority cfg) default_priority_weights;
          score_priority = fmul mean_prob (Fin (dict_get weights ''score_weight'' 0.5));
          depth_priority =
            (if length local_depths > 1 then
               let depth_var = fdiv (np_std local_depths)
                                 (fadd (np_mean (map fabs local_depths)) (Fin (1 / 10 ^ 10)))
               in fmul (py_min depth_var (Fin 1))
                    (Fin (dict_get weights ''depth_variance_weight'' 0.3))
             else Fin 0);
          area_normalized = min (area / 100) 1;
          area_priority = area_normalized * dict_get weights ''cluster_weight'' 0.2
      in fadd (fadd score_priority depth_priority) (Fin area_priority))"

definition flt :: "f64 \<Rightarrow> f64 \<Rightarrow> bool" where
  "flt a b = fgt b a"

definition infer_anomaly_type :: "(string \<times> f64) list \<Rightarrow> f64 list \<Rightarrow> f64 grid \<Rightarrow> AnomalyType" where
  "infer_anomaly_type detector_scores local_depths full_data =
     (if length local_depths = 0 then UNKNOWN
      else
        let global_median = np_nanmedian (concat full_data);
            local_mean = np_mean local_depths
        in if fgt local_mean (fmul global_median (Fin 1.5)) then SPIKE
           else if flt local_mean (fmul global_median (Fin 0.6)) then HOLE
           else if fgt (case map_of detector_scores ''isolation_forest'' of
                          None \<Rightarrow> Fin 0 | Some v \<Rightarrow> v) (Fin 0.8) then NOISE_BAND
           else UNKNOWN)"

text \<open>Python's \<^verbatim>\<open>max(items, key=...)\<close>: the first item with the greatest key.\<close>

fun max_by_score :: "string \<times> f64 \<Rightarrow> (string \<times> f64) list \<Rightarrow> string \<times> f64" where
  "max_by_score best [] = best"
| "max_by_score best (x # xs) = (if fgt (snd x) (snd best) then max_by_score x xs else max_by_score best xs)"

definition get_primary_reason :: "(string \<times> f64) list \<Rightarrow> string list \<Rightarrow> string" where
  "get_primary_reason detector_scores detectors_triggered =
     (if detectors_triggered = [] then ''Score exceeded threshold''
      else case detector_scores of
        [] \<Rightarrow> ''Score exceeded threshold''
      | x # xs \<Rightarrow>
         (let max_detector = max_by_score x xs in
          if fst max_detector = ''isolation_forest''
            then ''Unusual feature combination detected by Isolation Forest''
          else if fst max_detector = ''zscore'' then ''Depth significantly different from neighbors''
          else if fst max_detector = ''spatial_consistency''
            then ''Inconsistent with surrounding surface''
          else ''Flagged by '' @ fst max_detector))"

text \<open>Whether the CRS string names EPSG:4326.\<close>

definition is_wgs84 :: "string \<Rightarrow> bool" where
  "is_wgs84 crs = (sublist ''EPSG:4326'' crs \<or> sublist ''4326'' crs)"

text \<open>\<^verbatim>\<open>transform * Affine.translation(x_offset, y_offset)\<close>.\<close>

fun translate_affine :: "affine \<Rightarrow> real \<Rightarrow> real \<Rightarrow> affine" where
  "translate_affine (a, b, c, d, e, f) xo yo = (a, b, a * xo + b * yo + c, d, e, d * xo + e * yo + f)"

subsection \<open>\<^verbatim>\<open>polygonize\<close>\<close>

type_synonym box = "nat \<times> nat \<times> nat \<times> nat"

definition slice_box :: "'a grid \<Rightarrow> box \<Rightarrow> 'a grid" where
  "slice_box g b = (case b of (r0, r1, c0, c1) \<Rightarrow> grid_slice g r0 r1 c0 c1)"

definition min_area_of :: "ProcessingConfig \<Rightarrow> int" where
  "min_area_of cfg = get_or (min_area_pixels cfg) 25"

definition confidence_thresholds :: "ProcessingConfig \<Rightarrow> string \<rightharpoonup> real" where
  "confidence_thresholds cfg =
     get_or (scoring_confidence_thresholds cfg) [''high'' \<mapsto> 0.8, ''medium'' \<mapsto> 0.5]"

text \<open>The transformer prepared once before the loop, and the test for degrees that the
  simplification repeats.\<close>

definition prepare_transformer :: "'g geometry_lib \<Rightarrow> metadata \<Rightarrow> ('g \<Rightarrow> 'g option) option" where
  "prepare_transformer lib md =
     (case md_crs md of
        None \<Rightarrow> None
      | Some source_crs \<Rightarrow>
          if source_crs \<noteq> [] \<and> \<not> sublist ''EPSG:4326'' source_crs \<and> \<not> sublist ''4326'' source_crs
          then lib_transformer lib source_crs else None)"

definition crs_in_degrees :: "metadata \<Rightarrow> bool" where
  "crs_in_degrees md =
     (case md_crs md of None \<Rightarrow> False | Some source_crs \<Rightarrow> source_crs \<noteq> [] \<and> is_wgs84 source_crs)"

text \<open>The geometry of a component: vectorised on the local slice, reprojected when a
  transformer exists (a failing reprojection keeps the geometry), then simplified.\<close>

definition region_geometry ::
  "'g geometry_lib \<Rightarrow> ProcessingConfig \<Rightarrow> metadata \<Rightarrow> bool grid \<Rightarrow> box \<Rightarrow> 'g option" where
  "region_geometry lib cfg md component_mask obj_slice =
     (case obj_slice of (y_offset, r1, x_offset, c1) \<Rightarrow>
      let transform = get_or (md_transform md) (1, 0, 0, 0, - 1, 0);
          sub_transform = translate_affine transform (real x_offset) (real y_offset)
      in case lib_shapes lib component_mask sub_transform of
           None \<Rightarrow> None
         | Some geom \<Rightarrow>
            (let geom = (case prepare_transformer lib md of
                           None \<Rightarrow> geom
                         | Some transformer \<Rightarrow>
                             (case transformer geom of None \<Rightarrow> geom | Some g \<Rightarrow> g));
                 simplify_tol = get_or (simplify_tolerance cfg) 0.0001;
                 geom = (if simplify_tol > 0 then
                           (if crs_in_degrees md then lib_simplify lib simplify_tol geom
                            else if simplify_tol < 0.1 then lib_simplify lib (simplify_tol * 10) geom
                            else lib_simplify lib simplify_tol geom)
                         else geom)
             in Some geom))"

text \<open>The loop over the detector results: the mean score of each detector on the region,
  and the detectors whose mean exceeds the threshold.\<close>

fun detector_means ::
  "(string \<times> f64 grid) list \<Rightarrow> box \<Rightarrow> bool grid \<Rightarrow> py_error + (string \<times> f64) list" where
  "detector_means [] obj_slice component_mask = Inr []"
| "detector_means ((detector, scores) # rest) obj_slice component_mask =
     (case bool_index (slice_box scores obj_slice) component_mask of
        Inl e \<Rightarrow> Inl e
      | Inr detector_local \<Rightarrow>
         (case detector_means rest obj_slice component_mask of
            Inl e \<Rightarrow> Inl e
          | Inr means \<Rightarrow> Inr ((detector, np_nanmean detector_local) # means)))"

text \<open>The body of the loop for one labelled component: \<open>None\<close> is \<^verbatim>\<open>continue\<close>. The number
  \<open>n\<close> of anomalies built so far tells which values of \<^verbatim>\<open>uuid4()\<close> and \<^verbatim>\<open>utcnow()\<close> the
  constructor of the anomaly receives.\<close>

definition component_anomaly ::
  "'g geometry_lib \<Rightarrow> environment \<Rightarrow> ProcessingConfig \<Rightarrow> f64 grid \<Rightarrow> metadata
     \<Rightarrow> (string \<times> f64 grid) list \<Rightarrow> f64 grid \<Rightarrow> (string \<times> real) list \<Rightarrow> nat grid
     \<Rightarrow> nat \<Rightarrow> box \<Rightarrow> nat \<Rightarrow> py_error + 'g Anomaly option" where
  "component_anomaly lib env cfg scores md results data config_thresholds labeled
       label_id obj_slice n =
     (let threshold = anomaly_threshold cfg;
          min_area = min_area_of cfg;
          resolution = get_or (md_resolution md) (1, 1);
          sub_labeled = slice_box labeled obj_slice;
          component_mask = gmap (\<lambda>l. l = label_id) sub_labeled;
          pixel_count = length (filter id (concat component_mask))
      in if int pixel_count < min_area then Inr None
         else case region_geometry lib cfg md component_mask obj_slice of
           None \<Rightarrow> Inr None
         | Some geom \<Rightarrow>
            (let centroid = lib_centroid lib geom;
                 area = real pixel_count * \<bar>fst resolution * snd resolution\<bar>
             in case bool_index (slice_box scores obj_slice) component_mask of
               Inl e \<Rightarrow> Inl e
             | Inr local_scores \<Rightarrow>
              (case bool_index (slice_box data obj_slice) component_mask of
                 Inl e \<Rightarrow> Inl e
               | Inr depths \<Rightarrow>
                (let local_depths = filter (\<lambda>v. \<not> isnan v) depths in
                 case detector_means results obj_slice component_mask of
                   Inl e \<Rightarrow> Inl e
                 | Inr detector_scores \<Rightarrow>
                   (let detectors_triggered =
                          map fst (filter (\<lambda>ds. fgt (snd ds) (Fin threshold)) detector_scores);
                        mean_prob = np_nanmean local_scores;
                        confidence = confidence_of (confidence_thresholds cfg) mean_prob;
                        priority = calculate_priority cfg mean_prob area local_depths;
                        atype = infer_anomaly_type detector_scores local_depths data;
                        expl = \<lparr>exp_primary_reason =
                                   get_primary_reason detector_scores detectors_triggered,
                                 exp_features = detector_scores,
                                 exp_thresholds = config_thresholds,
                                 exp_detector_flags = detectors_triggered,
                                 exp_pixel_count = pixel_count\<rparr>
                    in Inr (Some
                         \<lparr>anomaly_id = uuid4 env (2 * n), run_id = uuid4 env (2 * n + 1),
                          centroid_x = fst centroid, centroid_y = snd centroid,
                          geometry = geom, area_sq_meters = area, anomaly_type = atype,
                          anomaly_probability = mean_prob, confidence_level = confidence,
                          qc_priority = priority, explanation = expl,
                          local_depth_mean =
                            (if length local_depths > 0 then Some (np_mean local_depths) else None),
                          local_depth_std =
                            (if length local_depths > 0 then Some (np_std local_depths) else None),
                          neighbor_count = pixel_count, review_decision = PENDING,
                          created_at = utcnow env n\<rparr>))))))"

text \<open>The loop over \<^verbatim>\<open>enumerate(objects, start=1)\<close> with its two safety limits, each of
  which ends the loop.\<close>

fun scan_components ::
  "(nat \<Rightarrow> box \<Rightarrow> nat \<Rightarrow> py_error + 'a option) \<Rightarrow> (nat \<times> box option) list \<Rightarrow> 'a list
     \<Rightarrow> py_error + 'a list" where
  "scan_components body [] anomalies = Inr anomalies"
| "scan_components body ((label_id, obj) # rest) anomalies =
     (if label_id > 2000 then Inr anomalies
      else case obj of
        None \<Rightarrow> scan_components body rest anomalies
      | Some obj_slice \<Rightarrow>
          if length anomalies \<ge> 2000 then Inr anomalies
          else (case body label_id obj_slice (length anomalies) of
                  Inl e \<Rightarrow> Inl e
                | Inr None \<Rightarrow> scan_components body rest anomalies
                | Inr (Some a) \<Rightarrow> scan_components body rest (anomalies @ [a])))"

text \<open>\<^verbatim>\<open>anomalies.sort(key=lambda a: a.qc_priority, reverse=True)\<close>: a stable sort by
  descending priority, written as an insertion sort. Anomalies of equal priority keep
  their order.\<close>

fun insert_by_priority :: "'g Anomaly \<Rightarrow> 'g Anomaly list \<Rightarrow> 'g Anomaly list" where
  "insert_by_priority a [] = [a]"
| "insert_by_priority a (b # bs) =
     (if flt (qc_priority a) (qc_priority b) then b # insert_by_priority a bs else a # b # bs)"

definition sort_by_priority :: "'g Anomaly list \<Rightarrow> 'g Anomaly list" where
  "sort_by_priority anomalies = foldr insert_by_priority anomalies []"

text \<open>The binary mask that is labelled: the cells above the threshold, opened when the
  minimum area exceeds one pixel.\<close>

definition region_mask :: "ProcessingConfig \<Rightarrow> f64 grid \<Rightarrow> bool grid" where
  "region_mask cfg scores =
     (let threshold = anomaly_threshold cfg;
          above = gmap (\<lambda>s. fgt s (Fin threshold) \<and> \<not> isnan s) scores
      in if min_area_of cfg > 1 then binary_opening above else above)"

definition polygonize ::
  "'g geometry_lib \<Rightarrow> environment \<Rightarrow> ProcessingConfig \<Rightarrow> f64 grid \<Rightarrow> metadata
     \<Rightarrow> (string \<times> f64 grid) list \<Rightarrow> f64 grid \<Rightarrow> (string \<times> real) list
     \<Rightarrow> py_error + 'g Anomaly list" where
  "polygonize lib env cfg scores md results data config_thresholds =
     (case ndimage_label (region_mask cfg scores) of (labeled, num_features) \<Rightarrow>
      let objects = find_objects labeled in
      if num_features = 0 then Inr []
      else case scan_components
                  (component_anomaly lib env cfg scores md results data config_thresholds labeled)
                  (zip [1..<Suc (length objects)] objects) [] of
        Inl e \<Rightarrow> Inl e
      | Inr anomalies \<Rightarrow> Inr (sort_by_priority anomalies))"

text \<open>The stages of \<^verbatim>\<open>MLPipeline.run_analysis\<close> between loading the raster and writing the
  files: features, detection, polygonization, and the run identifier set on every anomaly.\<close>

definition run_analysis ::
  "forest \<Rightarrow> 'g geometry_lib \<Rightarrow> environment \<Rightarrow> ProcessingConfig \<Rightarrow> f64 grid \<Rightarrow> metadata \<Rightarrow> nat
     \<Rightarrow> py_error + 'g Anomaly list" where
  "run_analysis forest lib env cfg data md rid =
     (let features = extract_features cfg data in
      case detect forest cfg data features of
        Inl e \<Rightarrow> Inl e
      | Inr detection_result \<Rightarrow>
         (let config_thresholds =
                [(''anomaly_threshold'', anomaly_threshold cfg),
                 (''zscore_threshold'', get_or (zscore_threshold cfg) 3),
                 (''isolation_contamination'', get_or (contamination cfg) 0.1)]
          in case polygonize lib env cfg (score_grid detection_result) md
                    (detector_results detection_result) data config_thresholds of
               Inl e \<Rightarrow> Inl e
             | Inr anomalies \<Rightarrow> Inr (map (\<lambda>a. a\<lparr>run_id := rid\<rparr>) anomalies)))"

section \<open>Predicates on cells and arrays\<close>

text \<open>Two arrays of the same shape are related cell by cell.\<close>

definition grel :: "('a \<Rightarrow> 'b \<Rightarrow> bool) \<Rightarrow> 'a grid \<Rightarrow> 'b grid \<Rightarrow> bool" where
  "grel R a b = list_all2 (list_all2 R) a b"

text \<open>A finite value of the unit interval; a value that is NaN, \<open>+inf\<close> or at least zero.\<close>

fun in_unit :: "f64 \<Rightarrow> bool" where
  "in_unit (Fin x) = (0 \<le> x \<and> x \<le> 1)"
| "in_unit _ = False"

fun nonneg :: "f64 \<Rightarrow> bool" where
  "nonneg NInf = False"
| "nonneg (Fin a) = (0 \<le> a)"
| "nonneg _ = True"

text \<open>What \<^verbatim>\<open>_run_zscore_detector\<close> computes at one cell, with the median absolute
  deviation and without.\<close>

definition zscore_cell_mad :: "f64 \<Rightarrow> f64 \<Rightarrow> real \<Rightarrow> f64 \<Rightarrow> f64" where
  "zscore_cell_mad median mad threshold z =
     nan_to_num (np_minimum (fdiv (if fgt (Fin (1 / 10 ^ 10)) mad then fabs (fsub z median)
                                   else fdiv (fabs (fsub z median)) mad) (Fin threshold)) (Fin 1))"

definition zscore_cell_plain :: "real \<Rightarrow> f64 \<Rightarrow> f64" where
  "zscore_cell_plain threshold z = nan_to_num (np_minimum (fdiv (fabs z) (Fin threshold)) (Fin 1))"

text \<open>A cell of an array filled by \<open>scatter\<close>: zero where the mask is false, and zero or
  one of the scattered values elsewhere.\<close>

definition scattered :: "f64 list \<Rightarrow> bool \<Rightarrow> f64 \<Rightarrow> bool" where
  "scattered vs m c = ((\<not> m \<longrightarrow> c = Fin 0) \<and> (c = Fin 0 \<or> c \<in> set vs))"

text \<open>A score \<open>c\<close> at a cell of depth \<open>d\<close>: finite, and zero where the depth is NaN. A score
  between zero and a bound.\<close>

definition score_ok :: "f64 \<Rightarrow> f64 \<Rightarrow> bool" where
  "score_ok d c = (isfinite c \<and> (isnan d \<longrightarrow> c = Fin 0))"

definition bounded_by :: "real \<Rightarrow> f64 \<Rightarrow> bool" where
  "bounded_by t c = (\<exists>x. c = Fin x \<and> 0 \<le> x \<and> x \<le> t)"

text \<open>The columns that \<^verbatim>\<open>_run_isolation_forest\<close> gathers from the extracted features.\<close>

definition feature_columns :: "ProcessingConfig \<Rightarrow> f64 grid \<Rightarrow> f64 list list" where
  "feature_columns cfg data =
     (let vm = gmap (\<lambda>v. \<not> isnan v) data in
      [select_mask (compute_local_zscore cfg data) vm, select_mask (compute_slope data) vm,
       select_mask (compute_curvature data) vm, select_mask (compute_roughness cfg data) vm,
       select_mask (compute_laplacian data) vm])"

text \<open>The number of pixels of a labelled component inside its bounding box, as the loop
  of \<^verbatim>\<open>polygonize\<close> counts them.\<close>

definition component_pixel_count :: "nat grid \<Rightarrow> nat \<Rightarrow> box \<Rightarrow> nat" where
  "component_pixel_count labeled label_id obj_slice =
     length (filter id (concat (gmap (\<lambda>l. l = label_id) (slice_box labeled obj_slice))))"

section \<open>Sample inputs\<close>

text \<open>A geometry library that keeps the component mask and its transform as the
  geometry, an environment that counts, and a configuration that keeps single pixels; the
  anomaly that \<open>polygonize\<close> builds from one pixel of score 1 and depth 5.\<close>

definition cell_lib :: "(bool grid \<times> affine) geometry_lib" where
  "cell_lib = \<lparr>lib_shapes = (\<lambda>m t. Some (m, t)), lib_transformer = (\<lambda>crs. None),
     lib_simplify = (\<lambda>tol g. g), lib_centroid = (\<lambda>g. case snd g of (a, b, c, d, e, f) \<Rightarrow> (c, f))\<rparr>"

definition counting_env :: "nat \<Rightarrow> environment" where
  "counting_env start = \<lparr>uuid4 = (\<lambda>n. start + n), utcnow = (\<lambda>n. real (start + n))\<rparr>"

definition plain_metadata :: metadata where
  "plain_metadata = \<lparr>md_transform = None, md_resolution = None, md_crs = None\<rparr>"

definition one_pixel_config :: ProcessingConfig where
  "one_pixel_config = empty_config\<lparr>min_area_pixels := Some 1\<rparr>"

definition one_pixel_anomaly :: "nat \<Rightarrow> (bool grid \<times> affine) Anomaly" where
  "one_pixel_anomaly k =
     \<lparr>anomaly_id = k, run_id = k + 1, centroid_x = 0, centroid_y = 0,
      geometry = ([[True]], 1, 0, 0, 0, - 1, 0), area_sq_meters = 1, anomaly_type = UNKNOWN,
      anomaly_probability = Fin 1, confidence_level = HIGH, qc_priority = Fin (251 / 500),
      explanation = \<lparr>exp_primary_reason = ''Score exceeded threshold'', exp_features = [],
        exp_thresholds = [], exp_detector_flags = [], exp_pixel_count = 1\<rparr>,
      local_depth_mean = Some (Fin 5), local_depth_std = Some (Fin 0), neighbor_count = 1,
      review_decision = PENDING, created_at = real k\<rparr>"

text \<open>A forest that scores every sample zero, and one that scores each sample by its first
  feature.\<close>

definition null_forest :: forest where
  "null_forest p X = map (\<lambda>row. 0) X"

definition first_feature_forest :: forest where
  "first_feature_forest p X = map (\<lambda>row. case row of [] \<Rightarrow> 0 | x # _ \<Rightarrow> x) X"

definition two_cells :: "f64 grid" where
  "two_cells = [[Fin 0, Fin 2]]"

definition gap_cells :: "f64 grid" where
  "gap_cells = [[Fin 0, NaN, Fin 2]]"

text \<open>Only the z-score detector, on 3 by 3 windows and without the median absolute deviation; once with the
  weight \<open>-1\<close>, once with the threshold \<open>-3\<close>.\<close>

definition zscore_only_config :: ProcessingConfig where
  "zscore_only_config = empty_config\<lparr>neighborhood_window_size := Some 3,
     isolation_forest_enabled := Some False, use_mad := Some False\<rparr>"

definition negative_weight_config :: ProcessingConfig where
  "negative_weight_config = zscore_only_config\<lparr>scoring_weights := Some [''zscore'' \<mapsto> - 1]\<rparr>"

definition negative_threshold_config :: ProcessingConfig where
  "negative_threshold_config = zscore_only_config\<lparr>zscore_threshold := Some (- 3)\<rparr>"

section \<open>Properties\<close>

subsection \<open>Confidence tier\<close>

lemma fge_Fin [simp]: "fge (Fin a) (Fin b) = (a \<ge> b)"
  by auto



subsection \<open>Chaikin smoothing\<close>

text \<open>
  Claim C4. Smoothing a closed path is claimed to give a closed path. One pass over the
  closed unit square returns the eight quarter points of its four edges and nothing else:
  the first is a quarter along the first edge, the last three quarters along the last edge,
  and they differ, so the ring is open after smoothing.
\<close>

theorem chaikin_square_not_closed:
  "is_closed_path unit_square
   \<and> chaikin_smooth unit_square 1 =
       Inr [(0, 1/4), (0, 3/4), (1/4, 1), (3/4, 1), (1, 3/4), (1, 1/4), (3/4, 0), (1/4, 0)]
   \<and> \<not> is_closed_path
         [(0, 1/4), (0, 3/4), (1/4, 1), (3/4, 1), (1, 3/4), (1, 1/4), (3/4, 0), (1/4, 0)]"
  by (simp add: is_closed_path_def unit_square_def chaikin_pass_def allclose_def isclose_def
      lerp_def)

subsection \<open>Sounding selection\<close>
















lemma collect_Inr_all:
  "collect f xs = Inr ys \<Longrightarrow> x \<in> set xs \<Longrightarrow> \<exists>r. f x = Inr r"
  by (induction xs arbitrary: ys) (auto split: sum.splits option.splits)
















subsection \<open>Feature extraction\<close>

lemma sobel_nodata_centre:
  "sobel 1 nodata_centre = all_nan3" "sobel 0 nodata_centre = all_nan3"
  by code_simp+

lemma sobel_twice_nodata_centre:
  "sobel 1 (sobel 1 nodata_centre) = all_nan3" "sobel 0 (sobel 0 nodata_centre) = all_nan3"
  by code_simp+

lemma slope_nodata_centre: "compute_slope nodata_centre = all_nan3"
  unfolding compute_slope_def Let_def sobel_nodata_centre
  by (simp add: all_nan3_def nodata_centre_def gmap2_def gmap_def set_nan_where_invalid_def
      fsquare_def)

lemma curvature_nodata_centre: "compute_curvature nodata_centre = all_nan3"
  unfolding compute_curvature_def Let_def sobel_twice_nodata_centre
  by (simp add: all_nan3_def nodata_centre_def gmap2_def gmap_def set_nan_where_invalid_def)

text \<open>
  Claim C1. Every feature surface is claimed to be NaN exactly where the grid is. On the
  3 by 3 grid whose only NaN is the centre cell, the Sobel filters of the slope and of the
  curvature read the NaN neighbour, so both surfaces are NaN at all nine cells, eight of
  which are valid in the grid (the corner \<open>(0, 0)\<close> holds the depth 1).
\<close>

theorem slope_curvature_nan_at_valid_cells:
  "gat nodata_centre 0 0 = Fin 1
   \<and> map_of (extract_features cfg nodata_centre) ''slope'' = Some all_nan3
   \<and> map_of (extract_features cfg nodata_centre) ''curvature'' = Some all_nan3
   \<and> isnan (gat all_nan3 0 0)"
  by (simp add: extract_features_def slope_nodata_centre curvature_nodata_centre)
     (simp add: nodata_centre_def all_nan3_def gat_def)

subsection \<open>Detection\<close>

lemma same_shape_refl: "same_shape a a"
  by (simp add: same_shape_def)

lemma same_shape_sym: "same_shape a b \<Longrightarrow> same_shape b a"
  by (simp add: same_shape_def)

lemma same_shape_trans: "same_shape a b \<Longrightarrow> same_shape b c \<Longrightarrow> same_shape a c"
  by (simp add: same_shape_def)

lemma same_shape_gmap: "same_shape (gmap f g) g"
  by (simp add: same_shape_def gmap_def o_def)

lemma map2_length_eq: "length xs = length ys \<Longrightarrow> length (map2 f xs ys) = length xs"
  by simp

lemma same_shape_gmap2: "same_shape a b \<Longrightarrow> same_shape (gmap2 f a b) a"
proof (induction a arbitrary: b)
  case Nil
  then show ?case by (simp add: same_shape_def gmap2_def)
next
  case (Cons r a)
  then obtain s b' where b: "b = s # b'" by (cases b) (auto simp: same_shape_def)
  with Cons show ?case by (simp add: same_shape_def gmap2_def)
qed

lemma rect_map_length: "rect g \<longleftrightarrow> map length g = replicate (nrows g) (ncols g)"
proof -
  have "(\<forall>r\<in>set g. length r = n) \<longleftrightarrow> map length g = replicate (length g) n" for n
    by (induction g) auto
  then show ?thesis by (simp add: rect_def nrows_def list_all_iff)
qed

lemma map_length_tabulate2: "map length (tabulate2 h w f) = replicate h w"
  by (simp add: tabulate2_def o_def map_replicate_const)

lemma same_shape_tabulate2: "rect a \<Longrightarrow> same_shape (tabulate2 (nrows a) (ncols a) f) a"
  by (simp add: same_shape_def map_length_tabulate2 rect_map_length)

lemma same_shape_zeros: "rect a \<Longrightarrow> same_shape (zeros (shape a)) a"
  by (simp add: same_shape_def zeros_def shape_def rect_map_length)

lemma same_shape_rect: "same_shape a b \<Longrightarrow> rect b \<Longrightarrow> rect a"
proof -
  assume s: "same_shape a b" and r: "rect b"
  have len: "length a = length b" using s unfolding same_shape_def by (metis length_map)
  have "ncols a = ncols b" using s by (cases a; cases b) (auto simp: same_shape_def ncols_def)
  then show "rect a" using s r len by (simp add: rect_map_length same_shape_def nrows_def)
qed

lemma same_shape_dims: "same_shape a b \<Longrightarrow> nrows a = nrows b \<and> ncols a = ncols b"
proof -
  assume s: "same_shape a b"
  have len: "length a = length b" using s unfolding same_shape_def by (metis length_map)
  have "ncols a = ncols b" using s by (cases a; cases b) (auto simp: same_shape_def ncols_def)
  then show ?thesis using len by (simp add: nrows_def)
qed

lemma length_scatter_row: "length (fst (scatter_row m vs)) = length m"
  by (induction m vs rule: scatter_row.induct) (auto split: prod.splits)

lemma same_shape_scatter: "same_shape (scatter m vs) m"
proof (induction m arbitrary: vs)
  case Nil then show ?case by (simp add: same_shape_def)
next
  case (Cons r m)
  obtain row rest where sr: "scatter_row r vs = (row, rest)" by (cases "scatter_row r vs")
  have "length row = length r" using length_scatter_row[of r vs] sr by simp
  then show ?case using Cons[of rest] sr by (simp add: same_shape_def)
qed

lemma same_shape_correlate3: "rect a \<Longrightarrow> same_shape (correlate3 ws axis a) a"
  by (cases ws) (simp add: correlate3_def same_shape_tabulate2)

lemma same_shape_sobel: "rect a \<Longrightarrow> same_shape (sobel axis a) a"
  unfolding sobel_def
  by (meson same_shape_correlate3 same_shape_rect same_shape_trans)

lemma same_shape_laplace: "rect a \<Longrightarrow> same_shape (laplace a) a"
  unfolding laplace_def
  by (meson same_shape_correlate3 same_shape_gmap2 same_shape_sym same_shape_trans)

lemma same_shape_convolve: "rect a \<Longrightarrow> same_shape (convolve_uniform w a) a"
  by (simp add: convolve_uniform_def same_shape_tabulate2)

lemma same_shape_set_nan: "same_shape m a \<Longrightarrow> same_shape (set_nan_where_invalid m a) a"
  unfolding set_nan_where_invalid_def
  by (meson same_shape_gmap2 same_shape_trans)

subsection \<open>Cell-wise relations between arrays\<close>

lemma list_all2_True: "length xs = length ys \<Longrightarrow> list_all2 (\<lambda>x y. True) xs ys"
  by (simp add: list_all2_conv_all_nth)

lemma row_rel_map2:
  "list_all2 R u x \<Longrightarrow> list_all2 S u y \<Longrightarrow>
   list_all2 (\<lambda>u z. \<exists>x y. R u x \<and> S u y \<and> z = f x y) u (map2 f x y)"
proof (induction u x arbitrary: y rule: list_all2_induct)
  case Nil then show ?case by simp
next
  case (Cons a u b x)
  then obtain c y' where y: "y = c # y'" by (cases y) auto
  with Cons show ?case by auto
qed

lemma row_rel_trans:
  "list_all2 R a b \<Longrightarrow> list_all2 S b c \<Longrightarrow> list_all2 (\<lambda>x z. \<exists>y. R x y \<and> S y z) a c"
proof (induction a b arbitrary: c rule: list_all2_induct)
  case Nil then show ?case by simp
next
  case (Cons x a y b)
  then obtain z c' where c: "c = z # c'" by (cases c) auto
  with Cons show ?case by auto
qed

lemma grel_same_shape: "grel R a b \<Longrightarrow> same_shape a b"
  unfolding grel_def same_shape_def
  by (induction a b rule: list_all2_induct) (auto dest: list_all2_lengthD)

lemma same_shape_grel: "same_shape a b \<Longrightarrow> grel (\<lambda>x y. True) a b"
  unfolding grel_def same_shape_def
proof (induction a arbitrary: b)
  case Nil then show ?case by simp
next
  case (Cons r a)
  then obtain s b' where b: "b = s # b'" by (cases b) auto
  have "list_all2 (\<lambda>x y. True) r s" using Cons.prems b by (simp add: list_all2_True)
  then show ?case using Cons b by simp
qed

lemma grel_mono:
  assumes "grel R a b" and imp: "\<And>x y. R x y \<Longrightarrow> S x y"
  shows "grel S a b"
proof -
  have row: "list_all2 S r s" if "list_all2 R r s" for r s
    using that by (rule list_all2_mono) (rule imp)
  show ?thesis using assms(1) unfolding grel_def by (rule list_all2_mono) (rule row)
qed

lemma grel_gmap: "grel (\<lambda>x y. y = f x) a (gmap f a)"
  unfolding grel_def gmap_def by (simp add: list_all2_map2 list_all2_same)

lemma grel_trans:
  "grel R a b \<Longrightarrow> grel S b c \<Longrightarrow> grel (\<lambda>x z. \<exists>y. R x y \<and> S y z) a c"
  unfolding grel_def
proof (induction a b arbitrary: c rule: list_all2_induct)
  case Nil then show ?case by simp
next
  case (Cons r a s b)
  then obtain t c' where c: "c = t # c'" by (cases c) auto
  have "list_all2 (\<lambda>x z. \<exists>y. R x y \<and> S y z) r t"
    by (rule row_rel_trans[where b = s]) (use Cons.hyps(1) Cons.prems c in auto)
  then show ?case using Cons c by simp
qed

lemma grel_gmap2:
  "grel R c a \<Longrightarrow> grel S c b \<Longrightarrow>
   grel (\<lambda>u z. \<exists>x y. R u x \<and> S u y \<and> z = f x y) c (gmap2 f a b)"
  unfolding grel_def gmap2_def
proof (induction c a arbitrary: b rule: list_all2_induct)
  case Nil then show ?case by simp
next
  case (Cons r c s a)
  then obtain t b' where b: "b = t # b'" by (cases b) auto
  have "list_all2 (\<lambda>u z. \<exists>x y. R u x \<and> S u y \<and> z = f x y) r (map2 f s t)"
    by (rule row_rel_map2) (use Cons.hyps(1) Cons.prems b in auto)
  then show ?case using Cons b by simp
qed

lemma grel_nth:
  "grel R a b \<Longrightarrow> i < length a \<Longrightarrow> j < length (a ! i) \<Longrightarrow> R (gat a i j) (gat b i j)"
  unfolding grel_def gat_def by (simp add: list_all2_nthD)

lemma rect_row_length: "rect a \<Longrightarrow> i < nrows a \<Longrightarrow> length (a ! i) = ncols a"
  by (simp add: rect_def nrows_def list_all_length)

lemma grel_cell:
  "grel R a b \<Longrightarrow> rect a \<Longrightarrow> i < nrows a \<Longrightarrow> j < ncols a \<Longrightarrow> R (gat a i j) (gat b i j)"
  using grel_nth[of R a b i j] rect_row_length[of a i] by (simp add: nrows_def)

lemma nonneg_fabs: "nonneg (fabs x)"
  by (cases x) auto

lemma nonneg_fdiv_mad: "nonneg s \<Longrightarrow> \<not> fgt (Fin e) m \<Longrightarrow> 0 < e \<Longrightarrow> nonneg (fdiv s m)"
  by (cases s; cases m) (auto simp: signed_inf_def)

lemma nonneg_fdiv_threshold: "nonneg s \<Longrightarrow> 0 \<le> t \<Longrightarrow> nonneg (fdiv s (Fin t))"
  by (cases s) (auto simp: signed_inf_def)

lemma in_unit_clamp: "nonneg s \<Longrightarrow> in_unit (nan_to_num (np_minimum s (Fin 1)))"
  by (cases s) (auto simp: np_minimum_def)

lemma isfinite_nan_to_num: "isfinite (nan_to_num x)"
  by (cases x) auto

lemma gmap_gmap: "gmap f (gmap g a) = gmap (f \<circ> g) a"
  by (simp add: gmap_def)

lemma grel_zeros: "rect a \<Longrightarrow> grel (\<lambda>x c. c = Fin 0) a (zeros (shape a))"
proof -
  assume r: "rect a"
  have row: "list_all2 (\<lambda>x c. c = Fin 0) xs (replicate (length xs) (Fin 0))" for xs :: "'a list"
    by (simp add: list_all2_conv_all_nth)
  have "list_all2 (list_all2 (\<lambda>x c. c = Fin 0)) a (replicate (length a) (replicate (ncols a) (Fin 0)))"
    using r unfolding rect_def list_all_iff
    by (auto simp: list_all2_conv_all_nth intro: row)
  then show ?thesis by (simp add: grel_def zeros_def shape_def nrows_def)
qed

lemma run_zscore_detector_cases:
  "run_zscore_detector cfg z = zeros (shape z) \<and> list_all isnan (concat z)
   \<or> (\<exists>median mad. get_or (use_mad cfg) True \<and>
         run_zscore_detector cfg z = gmap (zscore_cell_mad median mad (get_or (mad_threshold cfg) 3.5)) z)
   \<or> (\<not> get_or (use_mad cfg) True \<and>
         run_zscore_detector cfg z = gmap (zscore_cell_plain (get_or (zscore_threshold cfg) 3)) z)"
proof (cases "get_or (use_mad cfg) True")
  case False
  have "zscore_cell_plain t = (\<lambda>z. nan_to_num (np_minimum (fdiv (fabs z) (Fin t)) (Fin 1)))" for t
    by (rule ext) (simp add: zscore_cell_plain_def)
  then show ?thesis using False
    by (simp add: run_zscore_detector_def Let_def gmap_gmap o_def)
next
  case mad: True
  show ?thesis
  proof (cases "filter (\<lambda>v. \<not> isnan v) (concat z) = []")
    case True
    then have "list_all isnan (concat z)" by (simp add: filter_empty_conv list_all_iff)
    then show ?thesis using mad True by (simp add: run_zscore_detector_def)
  next
    case False
    let ?median = "np_median (filter (\<lambda>v. \<not> isnan v) (concat z))"
    let ?mad = "np_median (map (\<lambda>v. fabs (fsub v ?median)) (filter (\<lambda>v. \<not> isnan v) (concat z)))"
    have "run_zscore_detector cfg z =
        gmap (zscore_cell_mad ?median ?mad (get_or (mad_threshold cfg) 3.5)) z"
      using mad False
      by (simp add: run_zscore_detector_def Let_def gmap_gmap o_def zscore_cell_mad_def[abs_def])
    then show ?thesis using mad by blast
  qed
qed

lemma zscore_cell_mad_finite:
  "isfinite (zscore_cell_mad median mad t z)" "isnan z \<Longrightarrow> zscore_cell_mad median mad t z = Fin 0"
  by (cases z; simp add: zscore_cell_mad_def isfinite_nan_to_num fsub_def np_minimum_def)+

lemma zscore_cell_plain_finite:
  "isfinite (zscore_cell_plain t z)" "isnan z \<Longrightarrow> zscore_cell_plain t z = Fin 0"
  by (cases z; simp add: zscore_cell_plain_def isfinite_nan_to_num np_minimum_def)+

lemma zscore_cell_mad_unit: "0 \<le> t \<Longrightarrow> in_unit (zscore_cell_mad median mad t z)"
  unfolding zscore_cell_mad_def
  by (intro in_unit_clamp nonneg_fdiv_threshold)
     (auto intro: nonneg_fabs nonneg_fdiv_mad[where e = "1 / 10 ^ 10"])

lemma zscore_cell_plain_unit: "0 \<le> t \<Longrightarrow> in_unit (zscore_cell_plain t z)"
  unfolding zscore_cell_plain_def
  by (intro in_unit_clamp nonneg_fdiv_threshold nonneg_fabs)

lemma scattered_mono: "set vs \<subseteq> set ws \<Longrightarrow> scattered vs m c \<Longrightarrow> scattered ws m c"
  by (auto simp: scattered_def)

lemma scatter_row_rel:
  "list_all2 (scattered vs) ms (fst (scatter_row ms vs)) \<and> set (snd (scatter_row ms vs)) \<subseteq> set vs"
proof (induction ms vs rule: scatter_row.induct)
  case (1 vs)
  then show ?case by simp
next
  case (2 ms v vs)
  obtain r rest where sr: "scatter_row ms vs = (r, rest)" by (cases "scatter_row ms vs")
  have ih: "list_all2 (scattered vs) ms r" "set rest \<subseteq> set vs" using 2 sr by auto
  have tl: "list_all2 (scattered (v # vs)) ms r"
    using ih(1) by (rule list_all2_mono) (auto intro: scattered_mono[of vs])
  have hd: "scattered (v # vs) True v" by (simp add: scattered_def)
  show ?case using ih(2) sr tl hd by auto
next
  case (3 ms)
  obtain r rest where sr: "scatter_row ms [] = (r, rest)" by (cases "scatter_row ms []")
  have hd: "scattered [] True (Fin 0)" by (simp add: scattered_def)
  show ?case using 3 sr hd by auto
next
  case (4 ms vs)
  obtain r rest where sr: "scatter_row ms vs = (r, rest)" by (cases "scatter_row ms vs")
  have hd: "scattered vs False (Fin 0)" by (simp add: scattered_def)
  show ?case using 4 sr hd by auto
qed

lemma scatter_rel: "grel (scattered vs) m (scatter m vs)"
  unfolding grel_def
proof (induction m arbitrary: vs)
  case Nil then show ?case by simp
next
  case (Cons row m)
  obtain r rest where sr: "scatter_row row vs = (r, rest)" by (cases "scatter_row row vs")
  have row: "list_all2 (scattered vs) row r" and sub: "set rest \<subseteq> set vs"
    using scatter_row_rel[of vs row] sr by auto
  have "list_all2 (list_all2 (scattered rest)) m (scatter m rest)" by (rule Cons.IH)
  then have "list_all2 (list_all2 (scattered vs)) m (scatter m rest)"
  proof (rule list_all2_mono)
    fix xs ys assume "list_all2 (scattered rest) xs ys"
    then show "list_all2 (scattered vs) xs ys"
      by (rule list_all2_mono) (rule scattered_mono[OF sub])
  qed
  then show ?case using row sr by simp
qed

lemma normalised_unit:
  fixes scores :: "real list"
  assumes "x \<in> set scores"
  shows "0 \<le> (x - Min (set scores)) / (Max (set scores) - Min (set scores) + 1 / 10 ^ 10)
       \<and> (x - Min (set scores)) / (Max (set scores) - Min (set scores) + 1 / 10 ^ 10) \<le> 1"
proof -
  have lo: "Min (set scores) \<le> x" and hi: "x \<le> Max (set scores)" using assms by auto
  have pos: "0 < Max (set scores) - Min (set scores) + 1 / 10 ^ 10"
    using lo hi by (simp add: add_nonneg_pos)
  have "x - Min (set scores) \<le> Max (set scores) - Min (set scores) + 1 / 10 ^ 10"
    using hi by simp
  then show ?thesis using lo pos by (simp add: divide_le_eq_1)
qed

lemma run_isolation_forest_surface:
  assumes run: "run_isolation_forest forest cfg data features = Inr s" and r: "rect data"
  shows "grel (\<lambda>d c. (isnan d \<longrightarrow> c = Fin 0) \<and> in_unit c) data s"
proof -
  let ?vm = "gmap (\<lambda>v. \<not> isnan v) data"
  have z: "grel (\<lambda>d c. (isnan d \<longrightarrow> c = Fin 0) \<and> in_unit c) data (zeros (shape data))"
    using grel_zeros[OF r] by (rule grel_mono) simp
  have sc: "grel (\<lambda>d c. (isnan d \<longrightarrow> c = Fin 0) \<and> in_unit c) data (scatter ?vm (map Fin vs))"
    if "\<forall>v\<in>set vs. 0 \<le> v \<and> v \<le> 1" for vs
  proof -
    have "grel (\<lambda>d c. \<exists>m. m = (\<not> isnan d) \<and> scattered (map Fin vs) m c) data (scatter ?vm (map Fin vs))"
      by (rule grel_trans[OF grel_gmap scatter_rel])
    then show ?thesis
      by (rule grel_mono) (use that in \<open>auto simp: scattered_def\<close>)
  qed
  show ?thesis
  proof (cases "gather_features features ?vm
                  [''z_score'', ''slope'', ''curvature'', ''roughness'', ''laplacian'']")
    case (Inl e)
    then show ?thesis using run by (simp add: run_isolation_forest_def)
  next
    case (Inr feature_list)
    show ?thesis
    proof (cases "feature_list = []")
      case True
      then have "s = zeros (shape data)" using run Inr by (simp add: run_isolation_forest_def)
      then show ?thesis using z by simp
    next
      case False
      let ?X = "map (map nan_to_num0) (transpose feature_list)"
      let ?scores = "map uminus (forest (isolation_forest_config cfg) ?X)"
      let ?norm = "map (\<lambda>x. (x - Min (set ?scores)) / (Max (set ?scores) - Min (set ?scores) + 1 / 10 ^ 10)) ?scores"
      have "s = scatter ?vm (map Fin ?norm)"
        using run Inr False
        by (simp add: run_isolation_forest_def Let_def split: if_splits)
      moreover have "\<forall>v\<in>set ?norm. 0 \<le> v \<and> v \<le> 1"
        using normalised_unit[of _ ?scores] by auto
      ultimately show ?thesis using sc[of ?norm] by blast
    qed
  qed
qed

lemma score_ok_step: "score_ok d x \<Longrightarrow> score_ok d y \<Longrightarrow> score_ok d (fadd x (fmul (Fin w) y))"
  by (cases x; cases y) (auto simp: score_ok_def)

lemma score_ok_div: "score_ok d x \<Longrightarrow> 0 < t \<Longrightarrow> score_ok d (fdiv x (Fin t))"
  by (cases x) (auto simp: score_ok_def)

lemma bounded_by_step:
  "bounded_by t x \<Longrightarrow> in_unit y \<Longrightarrow> 0 \<le> w \<Longrightarrow> bounded_by (t + w) (fadd x (fmul (Fin w) y))"
proof -
  assume x: "bounded_by t x" and y: "in_unit y" and w: "0 \<le> w"
  obtain a where a: "x = Fin a" "0 \<le> a" "a \<le> t" using x by (auto simp: bounded_by_def)
  obtain b where b: "y = Fin b" "0 \<le> b" "b \<le> 1" using y by (cases y) auto
  have "w * b \<le> w * 1" using b w by (intro mult_left_mono) auto
  then have "a + w * b \<le> t + w" using a by simp
  moreover have "0 \<le> a + w * b" using a b w by simp
  ultimately show ?thesis using a b by (simp add: bounded_by_def)
qed

lemma bounded_by_div: "bounded_by t x \<Longrightarrow> 0 < t \<Longrightarrow> in_unit (fdiv x (Fin t))"
  by (auto simp: bounded_by_def divide_le_eq_1)

lemma bounded_by_zero: "bounded_by t x \<Longrightarrow> t \<le> 0 \<Longrightarrow> in_unit x"
  by (auto simp: bounded_by_def)

lemma accumulate_score_ok:
  assumes "accumulate_scores weights results (combined, t) = Inr (c', t')"
    and "grel score_ok data combined"
    and "\<And>k s. (k, s) \<in> set results \<Longrightarrow> grel score_ok data s"
  shows "grel score_ok data c'"
  using assms
proof (induction results arbitrary: combined t)
  case Nil
  then show ?case by simp
next
  case (Cons ks results)
  obtain k s where ks: "ks = (k, s)" by (cases ks)
  let ?w = "dict_get weights k 0.1"
  let ?next = "gmap2 (\<lambda>c s. fadd c (fmul (Fin ?w) s)) combined s"
  have run: "accumulate_scores weights results (?next, t + ?w) = Inr (c', t')"
    using Cons.prems(1) ks by (simp add: Let_def split: if_splits)
  have s: "grel score_ok data s" using Cons.prems(3)[of k s] ks by simp
  have "grel (\<lambda>u z. \<exists>x y. score_ok u x \<and> score_ok u y \<and> z = fadd x (fmul (Fin ?w) y)) data ?next"
    by (rule grel_gmap2[OF Cons.prems(2) s])
  then have nxt: "grel score_ok data ?next"
    by (rule grel_mono) (auto intro: score_ok_step)
  show ?case
    by (rule Cons.IH[OF run nxt]) (use Cons.prems(3) in auto)
qed

lemma accumulate_bounded:
  assumes "accumulate_scores weights results (combined, t) = Inr (c', t')"
    and "grel (\<lambda>d. bounded_by t) data combined"
    and "\<And>k s. (k, s) \<in> set results \<Longrightarrow> grel (\<lambda>d. in_unit) data s"
    and "\<And>k. 0 \<le> dict_get weights k 0.1"
  shows "grel (\<lambda>d. bounded_by t') data c'"
  using assms(1,2,3)
proof (induction results arbitrary: combined t)
  case Nil
  then show ?case by simp
next
  case (Cons ks results)
  obtain k s where ks: "ks = (k, s)" by (cases ks)
  let ?w = "dict_get weights k 0.1"
  let ?next = "gmap2 (\<lambda>c s. fadd c (fmul (Fin ?w) s)) combined s"
  have run: "accumulate_scores weights results (?next, t + ?w) = Inr (c', t')"
    using Cons.prems(1) ks by (simp add: Let_def split: if_splits)
  have s: "grel (\<lambda>d. in_unit) data s" using Cons.prems(3)[of k s] ks by simp
  have "grel (\<lambda>u z. \<exists>x y. bounded_by t x \<and> in_unit y \<and> z = fadd x (fmul (Fin ?w) y)) data ?next"
    by (rule grel_gmap2[OF Cons.prems(2) s])
  then have nxt: "grel (\<lambda>d. bounded_by (t + ?w)) data ?next"
    by (rule grel_mono) (auto intro: bounded_by_step assms(4))
  show ?case
    by (rule Cons.IH[OF run nxt]) (use Cons.prems(3) in auto)
qed

lemma accumulate_total:
  assumes "same_shape combined data"
    and "\<And>k s. (k, s) \<in> set results \<Longrightarrow> same_shape s data"
  shows "\<exists>r. accumulate_scores weights results (combined, t) = Inr r"
  using assms
proof (induction results arbitrary: combined t)
  case Nil
  then show ?case by simp
next
  case (Cons ks results)
  obtain k s where ks: "ks = (k, s)" by (cases ks)
  have s: "same_shape s data" using Cons.prems(2)[of k s] ks by simp
  have cs: "same_shape combined s"
    using Cons.prems(1) s by (simp add: same_shape_def)
  let ?w = "dict_get weights k 0.1"
  let ?next = "gmap2 (\<lambda>c s. fadd c (fmul (Fin ?w) s)) combined s"
  have "same_shape ?next data"
    using same_shape_gmap2[OF cs] Cons.prems(1) by (simp add: same_shape_def)
  then have "\<exists>r. accumulate_scores weights results (?next, t + ?w) = Inr r"
    by (rule Cons.IH) (use Cons.prems(2) in auto)
  then show ?case using cs ks by (simp add: Let_def)
qed

lemma combine_scores_score_ok:
  assumes "combine_scores cfg results (shape data) = Inr final" and "rect data"
    and "\<And>k s. (k, s) \<in> set results \<Longrightarrow> grel score_ok data s"
  shows "grel score_ok data final"
proof -
  let ?weights = "get_or (scoring_weights cfg) default_weights"
  obtain c t where acc: "accumulate_scores ?weights results (zeros (shape data), 0) = Inr (c, t)"
    using assms(1) by (auto simp: combine_scores_def Let_def split: sum.splits)
  have z: "grel score_ok data (zeros (shape data))"
    using grel_zeros[OF assms(2)] by (rule grel_mono) (simp add: score_ok_def)
  have c: "grel score_ok data c"
    by (rule accumulate_score_ok[OF acc z]) (rule assms(3))
  show ?thesis
  proof (cases "t > 0")
    case True
    then have "final = gmap (\<lambda>c. fdiv c (Fin t)) c"
      using assms(1) acc by (simp add: combine_scores_def)
    moreover have "grel (\<lambda>d z. \<exists>y. score_ok d y \<and> z = fdiv y (Fin t)) data (gmap (\<lambda>c. fdiv c (Fin t)) c)"
      by (rule grel_trans[OF c grel_gmap])
    ultimately show ?thesis
      using True by (auto intro: score_ok_div elim!: grel_mono)
  next
    case False
    then have "final = c" using assms(1) acc by (simp add: combine_scores_def)
    then show ?thesis using c by simp
  qed
qed

lemma combine_scores_unit:
  assumes "combine_scores cfg results (shape data) = Inr final" and "rect data"
    and "\<And>k s. (k, s) \<in> set results \<Longrightarrow> grel (\<lambda>d. in_unit) data s"
    and "\<And>k. 0 \<le> dict_get (get_or (scoring_weights cfg) default_weights) k 0.1"
  shows "grel (\<lambda>d. in_unit) data final"
proof -
  let ?weights = "get_or (scoring_weights cfg) default_weights"
  obtain c t where acc: "accumulate_scores ?weights results (zeros (shape data), 0) = Inr (c, t)"
    using assms(1) by (auto simp: combine_scores_def Let_def split: sum.splits)
  have z: "grel (\<lambda>d. bounded_by 0) data (zeros (shape data))"
    using grel_zeros[OF assms(2)] by (rule grel_mono) (simp add: bounded_by_def)
  have c: "grel (\<lambda>d. bounded_by t) data c"
    by (rule accumulate_bounded[OF acc z]) (rule assms(3), assumption, rule assms(4))
  show ?thesis
  proof (cases "t > 0")
    case True
    then have "final = gmap (\<lambda>c. fdiv c (Fin t)) c"
      using assms(1) acc by (simp add: combine_scores_def)
    moreover have "grel (\<lambda>d z. \<exists>y. bounded_by t y \<and> z = fdiv y (Fin t)) data (gmap (\<lambda>c. fdiv c (Fin t)) c)"
      by (rule grel_trans[OF c grel_gmap])
    ultimately show ?thesis
      using True by (auto intro: bounded_by_div elim!: grel_mono)
  next
    case False
    then have "final = c" using assms(1) acc by (simp add: combine_scores_def)
    then show ?thesis using c False by (auto intro: bounded_by_zero elim!: grel_mono)
  qed
qed

lemma detect_Inr:
  assumes "detect forest cfg data features = Inr r"
  shows "combine_scores cfg (detector_results r) (shape data) = Inr (score_grid r)"
    and "same_shape (score_grid r) data"
    and "\<And>k s. (k, s) \<in> set (detector_results r) \<Longrightarrow>
           run_isolation_forest forest cfg data features = Inr s
           \<or> (\<exists>z. map_of features ''z_score'' = Some z \<and> s = run_zscore_detector cfg z)"
proof -
  let ?iso = "if get_or (isolation_forest_enabled cfg) True
            then (case run_isolation_forest forest cfg data features of
                    Inl e \<Rightarrow> Inl e
                  | Inr r \<Rightarrow> Inr [(''isolation_forest'', r)])
            else Inr []"
  obtain results1 where r1: "?iso = Inr results1"
    using assms unfolding detect_def by (cases ?iso) simp_all
  let ?zs = "if get_or (zscore_enabled cfg) True
                then (case map_of features ''z_score'' of
                        None \<Rightarrow> Inl KeyError
                      | Some z \<Rightarrow> Inr (results1 @ [(''zscore'', run_zscore_detector cfg z)]))
                else Inr results1"
  obtain results where r2: "?zs = Inr results"
    using assms r1 unfolding detect_def by (cases ?zs) simp_all
  obtain final where fin: "combine_scores cfg results (shape data) = Inr final"
    using assms r1 r2 unfolding detect_def
    by (cases "combine_scores cfg results (shape data)") simp_all
  have ok: "same_shape (gmap (\<lambda>s. fgt s (Fin (anomaly_threshold cfg))) final) data"
    and r: "r = \<lparr>anomaly_mask = gmap2 (\<lambda>m v. m \<and> \<not> isnan v)
                 (gmap (\<lambda>s. fgt s (Fin (anomaly_threshold cfg))) final) data,
               score_grid = final, detector_results = results\<rparr>"
    using assms r1 r2 fin unfolding detect_def by (simp_all add: Let_def split: if_splits)
  show "combine_scores cfg (detector_results r) (shape data) = Inr (score_grid r)"
    using fin r by simp
  show "same_shape (score_grid r) data"
    using ok r same_shape_gmap[of "\<lambda>s. fgt s (Fin (anomaly_threshold cfg))" final]
    by (simp add: same_shape_def)
  fix k s assume "(k, s) \<in> set (detector_results r)"
  then have mem: "(k, s) \<in> set results" using r by simp
  have m1: "run_isolation_forest forest cfg data features = Inr s'" if "(k', s') \<in> set results1" for k' s'
    using r1 that by (auto split: if_splits sum.splits)
  show "run_isolation_forest forest cfg data features = Inr s
           \<or> (\<exists>z. map_of features ''z_score'' = Some z \<and> s = run_zscore_detector cfg z)"
    using r2 mem m1 by (auto split: if_splits option.splits)
qed

subsection \<open>The feature surfaces\<close>

lemma same_shape_local_mean_var:
  assumes "rect data"
  shows "same_shape (fst (local_mean_var w data)) data" "same_shape (snd (local_mean_var w data)) data"
proof -
  let ?vm = "gmap (\<lambda>v. \<not> isnan v) data"
  let ?filled = "gmap nan_to_num data"
  have vm: "same_shape ?vm data" and fl: "same_shape ?filled data" by (rule same_shape_gmap)+
  have fv: "same_shape ?filled ?vm" using vm fl by (simp add: same_shape_def)
  have conv: "same_shape (convolve_uniform w a) data" if "same_shape a data" for a
    using same_shape_convolve[OF same_shape_rect[OF that assms]] that by (simp add: same_shape_def)
  have m2: "same_shape (gmap2 f a b) data" if "same_shape a data" "same_shape b data"
    for f :: "'x \<Rightarrow> 'y \<Rightarrow> 'z" and a b
    using same_shape_gmap2[of a b f] that by (simp add: same_shape_def)
  have m1: "same_shape (gmap f a) data" if "same_shape a data" for f :: "'x \<Rightarrow> 'y" and a
    using same_shape_gmap[of f a] that by (simp add: same_shape_def)
  show "same_shape (fst (local_mean_var w data)) data"
    unfolding local_mean_var_def Let_def fst_conv
    by (intro m2 m1 conv vm fl)
  show "same_shape (snd (local_mean_var w data)) data"
    unfolding local_mean_var_def Let_def snd_conv
    by (intro m2 m1 conv vm fl)
qed

lemma same_shape_intro:
  "same_shape a data \<Longrightarrow> same_shape (gmap f a) data"
  "same_shape a data \<Longrightarrow> same_shape b data \<Longrightarrow> same_shape (gmap2 g a b) data"
  "same_shape m data \<Longrightarrow> same_shape a data \<Longrightarrow> same_shape (set_nan_where_invalid m a) data"
  using same_shape_gmap[of f a] same_shape_gmap2[of a b g]
    same_shape_gmap2[of m a "\<lambda>v x. if v then x else NaN"]
  by (simp_all add: same_shape_def set_nan_where_invalid_def)

lemma same_shape_features:
  assumes "rect data"
  shows "same_shape (compute_local_zscore cfg data) data"
    "same_shape (compute_slope data) data"
    "same_shape (compute_curvature data) data"
    "same_shape (compute_roughness cfg data) data"
    "same_shape (compute_laplacian data) data"
proof -
  have sob: "same_shape (sobel ax a) data" if "same_shape a data" for ax a
    using same_shape_sobel[OF same_shape_rect[OF that assms]] that by (simp add: same_shape_def)
  have lap: "same_shape (laplace a) data" if "same_shape a data" for a
    using same_shape_laplace[OF same_shape_rect[OF that assms]] that by (simp add: same_shape_def)
  note intros = same_shape_intro same_shape_local_mean_var[OF assms] same_shape_refl sob lap
  show "same_shape (compute_local_zscore cfg data) data"
    unfolding compute_local_zscore_def Let_def by (intro intros)
  show "same_shape (compute_slope data) data"
    unfolding compute_slope_def Let_def by (intro intros)
  show "same_shape (compute_curvature data) data"
    unfolding compute_curvature_def Let_def by (intro intros)
  show "same_shape (compute_roughness cfg data) data"
    unfolding compute_roughness_def Let_def by (intro intros)
  show "same_shape (compute_laplacian data) data"
    unfolding compute_laplacian_def Let_def by (intro intros)
qed

lemma set_nan_rel:
  assumes "same_shape z data"
  shows "grel (\<lambda>d r. isnan d \<longrightarrow> isnan r) data
           (set_nan_where_invalid (gmap (\<lambda>v. \<not> isnan v) data) z)"
proof -
  have t: "grel (\<lambda>x y. True) data z"
    by (rule same_shape_grel) (use assms in \<open>simp add: same_shape_def\<close>)
  have "grel (\<lambda>u r. \<exists>x y. x = (\<not> isnan u) \<and> True \<and> r = (if x then y else NaN)) data
          (gmap2 (\<lambda>v x. if v then x else NaN) (gmap (\<lambda>v. \<not> isnan v) data) z)"
    by (rule grel_gmap2[OF grel_gmap t])
  then show ?thesis
    unfolding set_nan_where_invalid_def by (rule grel_mono) auto
qed

lemma zscore_feature_nan:
  assumes "rect data"
  shows "grel (\<lambda>d z. isnan d \<longrightarrow> isnan z) data (compute_local_zscore cfg data)"
proof -
  note intros = same_shape_intro same_shape_local_mean_var[OF assms] same_shape_refl
  show ?thesis
    unfolding compute_local_zscore_def Let_def
    by (rule set_nan_rel) (intro intros)
qed

lemma zscore_surface_ok:
  assumes "rect z"
  shows "grel (\<lambda>z c. isfinite c \<and> (isnan z \<longrightarrow> c = Fin 0)) z (run_zscore_detector cfg z)"
proof -
  have cellwise: "grel (\<lambda>z c. isfinite c \<and> (isnan z \<longrightarrow> c = Fin 0)) z (gmap f z)"
    if "\<And>x. isfinite (f x)" "\<And>x. isnan x \<Longrightarrow> f x = Fin 0" for f
    using grel_gmap[of f z] by (rule grel_mono) (use that in auto)
  consider "run_zscore_detector cfg z = zeros (shape z)"
    | median mad where "run_zscore_detector cfg z =
          gmap (zscore_cell_mad median mad (get_or (mad_threshold cfg) 3.5)) z"
    | "run_zscore_detector cfg z = gmap (zscore_cell_plain (get_or (zscore_threshold cfg) 3)) z"
    using run_zscore_detector_cases[of cfg z] by blast
  then show ?thesis
  proof cases
    case 1
    show ?thesis unfolding 1 using grel_zeros[OF assms] by (rule grel_mono) simp
  next
    case 2
    show ?thesis unfolding 2 by (rule cellwise) (rule zscore_cell_mad_finite)+
  next
    case 3
    show ?thesis unfolding 3 by (rule cellwise) (rule zscore_cell_plain_finite)+
  qed
qed

lemma zscore_surface_unit:
  assumes "rect z" "0 \<le> get_or (mad_threshold cfg) 3.5" "0 \<le> get_or (zscore_threshold cfg) 3"
  shows "grel (\<lambda>z. in_unit) z (run_zscore_detector cfg z)"
proof -
  have cellwise: "grel (\<lambda>z. in_unit) z (gmap f z)" if "\<And>x. in_unit (f x)" for f
    using grel_gmap[of f z] by (rule grel_mono) (use that in auto)
  consider "run_zscore_detector cfg z = zeros (shape z)"
    | median mad where "run_zscore_detector cfg z =
          gmap (zscore_cell_mad median mad (get_or (mad_threshold cfg) 3.5)) z"
    | "run_zscore_detector cfg z = gmap (zscore_cell_plain (get_or (zscore_threshold cfg) 3)) z"
    using run_zscore_detector_cases[of cfg z] by blast
  then show ?thesis
  proof cases
    case 1
    show ?thesis unfolding 1 using grel_zeros[OF assms(1)] by (rule grel_mono) simp
  next
    case 2
    show ?thesis unfolding 2 by (rule cellwise) (rule zscore_cell_mad_unit[OF assms(2)])
  next
    case 3
    show ?thesis unfolding 3 by (rule cellwise) (rule zscore_cell_plain_unit[OF assms(3)])
  qed
qed

lemma map_of_z_score:
  "map_of (extract_features cfg data) ''z_score'' = Some (compute_local_zscore cfg data)"
  by (simp add: extract_features_def)

text \<open>Every detector surface of a run on the features of the grid is finite, and zero at
  the invalid cells of the grid.\<close>

lemma detector_surface_ok:
  assumes "rect data"
    and "run_isolation_forest forest cfg data (extract_features cfg data) = Inr s
         \<or> (\<exists>z. map_of (extract_features cfg data) ''z_score'' = Some z \<and> s = run_zscore_detector cfg z)"
  shows "grel score_ok data s"
  using assms(2)
proof
  assume "run_isolation_forest forest cfg data (extract_features cfg data) = Inr s"
  then have "grel (\<lambda>d c. (isnan d \<longrightarrow> c = Fin 0) \<and> in_unit c) data s"
    using assms(1) by (rule run_isolation_forest_surface)
  then show ?thesis
    by (rule grel_mono) (case_tac y; simp add: score_ok_def)
next
  assume "\<exists>z. map_of (extract_features cfg data) ''z_score'' = Some z \<and> s = run_zscore_detector cfg z"
  then have s: "s = run_zscore_detector cfg (compute_local_zscore cfg data)"
    by (simp add: map_of_z_score)
  let ?z = "compute_local_zscore cfg data"
  have rz: "rect ?z" using same_shape_rect[OF same_shape_features(1)[OF assms(1)] assms(1)] .
  have "grel (\<lambda>d c. \<exists>z. (isnan d \<longrightarrow> isnan z) \<and> isfinite c \<and> (isnan z \<longrightarrow> c = Fin 0)) data s"
    unfolding s by (rule grel_trans[OF zscore_feature_nan[OF assms(1)] zscore_surface_ok[OF rz]])
  then show ?thesis
    by (rule grel_mono) (auto simp: score_ok_def)
qed

lemma detector_surface_unit:
  assumes "rect data" "0 \<le> get_or (mad_threshold cfg) 3.5" "0 \<le> get_or (zscore_threshold cfg) 3"
    and "run_isolation_forest forest cfg data (extract_features cfg data) = Inr s
         \<or> (\<exists>z. map_of (extract_features cfg data) ''z_score'' = Some z \<and> s = run_zscore_detector cfg z)"
  shows "grel (\<lambda>d. in_unit) data s"
  using assms(4)
proof
  assume "run_isolation_forest forest cfg data (extract_features cfg data) = Inr s"
  then have "grel (\<lambda>d c. (isnan d \<longrightarrow> c = Fin 0) \<and> in_unit c) data s"
    using assms(1) by (rule run_isolation_forest_surface)
  then show ?thesis
    by (rule grel_mono) simp
next
  assume "\<exists>z. map_of (extract_features cfg data) ''z_score'' = Some z \<and> s = run_zscore_detector cfg z"
  then have s: "s = run_zscore_detector cfg (compute_local_zscore cfg data)"
    by (simp add: map_of_z_score)
  let ?z = "compute_local_zscore cfg data"
  have rz: "rect ?z" using same_shape_rect[OF same_shape_features(1)[OF assms(1)] assms(1)] .
  have "grel (\<lambda>d c. \<exists>z. (isnan d \<longrightarrow> isnan z) \<and> in_unit c) data s"
    unfolding s
    by (rule grel_trans[OF zscore_feature_nan[OF assms(1)] zscore_surface_unit[OF rz assms(2,3)]])
  then show ?thesis
    by (rule grel_mono) auto
qed

lemma detect_score_ok:
  assumes "rect data" "detect forest cfg data (extract_features cfg data) = Inr r"
  shows "grel score_ok data (score_grid r)"
  by (rule combine_scores_score_ok[OF detect_Inr(1)[OF assms(2)] assms(1)])
     (rule detector_surface_ok[OF assms(1) detect_Inr(3)[OF assms(2)]])

lemma detect_unit:
  assumes "rect data" "detect forest cfg data (extract_features cfg data) = Inr r"
    and "0 \<le> get_or (mad_threshold cfg) 3.5" "0 \<le> get_or (zscore_threshold cfg) 3"
    and "\<And>k. 0 \<le> dict_get (get_or (scoring_weights cfg) default_weights) k 0.1"
  shows "grel (\<lambda>d. in_unit) data (score_grid r)"
  by (rule combine_scores_unit[OF detect_Inr(1)[OF assms(2)] assms(1)])
     (rule detector_surface_unit[OF assms(1,3,4) detect_Inr(3)[OF assms(2)]], assumption,
      rule assms(5))

lemma length_filter_zip:
  "length xs = length ms \<Longrightarrow> length (filter snd (zip xs ms)) = length (filter id ms)"
  by (induction xs ms rule: list_induct2) auto

lemma length_concat_same_shape: "same_shape a m \<Longrightarrow> length (concat a) = length (concat m)"
  by (simp add: length_concat same_shape_def)

lemma length_select_mask:
  "same_shape a m \<Longrightarrow> length (select_mask a m) = length (filter id (concat m))"
  by (simp add: select_mask_def length_filter_zip length_concat_same_shape)

lemma concat_gmap: "concat (gmap f g) = map f (concat g)"
  by (simp add: gmap_def map_concat)

lemma valid_count:
  "length (filter id (concat (gmap (\<lambda>v. \<not> isnan v) data))) = length (filter (\<lambda>v. \<not> isnan v) (concat data))"
  by (simp add: concat_gmap filter_map o_def)

lemma gather_extracted:
  assumes "rect data"
  shows "gather_features (extract_features cfg data) (gmap (\<lambda>v. \<not> isnan v) data)
           [''z_score'', ''slope'', ''curvature'', ''roughness'', ''laplacian'']
         = Inr (feature_columns cfg data)"
proof -
  have vm: "same_shape f (gmap (\<lambda>v. \<not> isnan v) data)" if "same_shape f data" for f :: "f64 grid"
    using that same_shape_gmap[of "\<lambda>v. \<not> isnan v" data] by (simp add: same_shape_def)
  note sh = same_shape_features[OF assms, THEN vm]
  show ?thesis
    by (simp add: extract_features_def bool_index_def sh feature_columns_def Let_def)
qed

lemma length_feature_columns:
  assumes "rect data"
  shows "length (transpose (feature_columns cfg data)) = length (filter (\<lambda>v. \<not> isnan v) (concat data))"
proof -
  have vm: "same_shape f (gmap (\<lambda>v. \<not> isnan v) data)" if "same_shape f data" for f :: "f64 grid"
    using that same_shape_gmap[of "\<lambda>v. \<not> isnan v" data] by (simp add: same_shape_def)
  note sh = same_shape_features[OF assms, THEN vm]
  show ?thesis
    by (simp add: feature_columns_def Let_def length_transpose length_select_mask sh valid_count)
qed

lemma run_isolation_forest_extracted:
  assumes "rect data"
  shows "run_isolation_forest forest cfg data (extract_features cfg data) =
     (let X = map (map nan_to_num0) (transpose (feature_columns cfg data)) in
      if filter (\<lambda>v. \<not> isnan v) (concat data) = [] then Inl ValueError
      else let scores = map uminus (forest (isolation_forest_config cfg) X) in
        if length scores \<noteq> length X then Inl ValueError
        else Inr (scatter (gmap (\<lambda>v. \<not> isnan v) data)
               (map Fin (map (\<lambda>s. (s - Min (set scores)) / (Max (set scores) - Min (set scores) + 1 / 10 ^ 10)) scores))))"
proof -
  have ne: "feature_columns cfg data \<noteq> []" by (simp add: feature_columns_def Let_def)
  have e: "(map (map nan_to_num0) (transpose (feature_columns cfg data)) = [])
         = (filter (\<lambda>v. \<not> isnan v) (concat data) = [])"
    using length_feature_columns[OF assms, of cfg] by (metis length_0_conv map_is_Nil_conv)
  show ?thesis
    unfolding run_isolation_forest_def Let_def gather_extracted[OF assms] sum.case
    using ne e by simp
qed

lemma run_isolation_forest_all_nan:
  assumes "rect data" "list_all isnan (concat data)"
  shows "run_isolation_forest forest cfg data (extract_features cfg data) = Inl ValueError"
proof -
  have "filter (\<lambda>v. \<not> isnan v) (concat data) = []"
    using assms(2) by (simp add: filter_empty_conv list_all_iff)
  then show ?thesis
    unfolding run_isolation_forest_extracted[OF assms(1)] Let_def by simp
qed

lemma detect_all_nan:
  assumes "rect data" "list_all isnan (concat data)" "get_or (isolation_forest_enabled cfg) True"
  shows "detect forest cfg data (extract_features cfg data) = Inl ValueError"
  unfolding detect_def using assms(3) run_isolation_forest_all_nan[OF assms(1,2)] by simp

lemma run_isolation_forest_returns:
  assumes "rect data" "\<not> list_all isnan (concat data)" "\<And>p X. length (forest p X) = length X"
  shows "\<exists>s. run_isolation_forest forest cfg data (extract_features cfg data) = Inr s"
proof -
  have "filter (\<lambda>v. \<not> isnan v) (concat data) \<noteq> []"
    using assms(2) by (simp add: filter_empty_conv list_all_iff)
  then show ?thesis
    unfolding run_isolation_forest_extracted[OF assms(1)] Let_def using assms(3) by simp
qed

lemma detect_returns:
  assumes r: "rect data"
    and valid: "\<not> list_all isnan (concat data) \<or> \<not> get_or (isolation_forest_enabled cfg) True"
    and forest: "\<And>p X. length (forest p X) = length X"
  shows "\<exists>r. detect forest cfg data (extract_features cfg data) = Inr r"
proof -
  let ?features = "extract_features cfg data"
  let ?iso = "if get_or (isolation_forest_enabled cfg) True
            then (case run_isolation_forest forest cfg data ?features of
                    Inl e \<Rightarrow> Inl e
                  | Inr r \<Rightarrow> Inr [(''isolation_forest'', r)])
            else Inr []"
  obtain results1 where r1: "?iso = Inr results1"
    and m1: "\<And>k s. (k, s) \<in> set results1 \<Longrightarrow> run_isolation_forest forest cfg data ?features = Inr s"
  proof (cases "get_or (isolation_forest_enabled cfg) True")
    case True
    then have nn: "\<not> list_all isnan (concat data)" using valid by blast
    have "\<exists>s. run_isolation_forest forest cfg data ?features = Inr s"
      by (rule run_isolation_forest_returns[OF r nn]) (rule forest)
    then obtain s where "run_isolation_forest forest cfg data ?features = Inr s" ..
    then show ?thesis using True by (intro that[of "[(''isolation_forest'', s)]"]) auto
  next
    case False
    then show ?thesis by (intro that[of "[]"]) auto
  qed
  let ?zs = "if get_or (zscore_enabled cfg) True
                then (case map_of ?features ''z_score'' of
                        None \<Rightarrow> Inl KeyError
                      | Some z \<Rightarrow> Inr (results1 @ [(''zscore'', run_zscore_detector cfg z)]))
                else Inr results1"
  obtain results where r2: "?zs = Inr results"
    and m2: "\<And>k s. (k, s) \<in> set results \<Longrightarrow>
         run_isolation_forest forest cfg data ?features = Inr s
         \<or> (\<exists>z. map_of ?features ''z_score'' = Some z \<and> s = run_zscore_detector cfg z)"
  proof (cases "get_or (zscore_enabled cfg) True")
    case True
    show ?thesis
      by (rule that[of "results1 @ [(''zscore'', run_zscore_detector cfg (compute_local_zscore cfg data))]"])
         (use True m1 in \<open>auto simp: map_of_z_score\<close>)
  next
    case False
    show ?thesis by (rule that[of results1]) (use False m1 in auto)
  qed
  have ok: "grel score_ok data s" if "(k, s) \<in> set results" for k s
    by (rule detector_surface_ok[OF r m2[OF that]])
  have shs: "same_shape s data" if "(k, s) \<in> set results" for k s
    using grel_same_shape[OF ok[OF that]] by (simp add: same_shape_def)
  have "\<exists>acc. accumulate_scores (get_or (scoring_weights cfg) default_weights) results
           (zeros (shape data), 0) = Inr acc"
    by (rule accumulate_total[where data = data, OF same_shape_zeros[OF r]]) (rule shs)
  then have "\<exists>final. combine_scores cfg results (shape data) = Inr final"
    by (auto simp: combine_scores_def Let_def split: prod.splits)
  then obtain final where fin: "combine_scores cfg results (shape data) = Inr final" ..
  have "grel score_ok data final"
    by (rule combine_scores_score_ok[OF fin r]) (rule ok)
  then have "same_shape data final" by (rule grel_same_shape)
  then have "same_shape final data" by (simp add: same_shape_def)
  then have sh: "same_shape (gmap (\<lambda>s. fgt s (Fin (anomaly_threshold cfg))) final) data"
    by (rule same_shape_intro(1))
  show ?thesis
    unfolding detect_def r1 sum.case r2 fin Let_def using sh by simp
qed

subsection \<open>The combined score\<close>

text \<open>
  Claim C10. On the features of a rectangular grid, every cell of the combined score that
  \<open>detect\<close> returns is a finite number, and it is zero wherever the grid is NaN; the
  surface has the shape of the grid. \<open>detect\<close> does return when the forest gives one score
  per sample and the grid has a valid cell.
\<close>

theorem combined_score_finite_and_zero_at_nodata:
  assumes "rect data"
  shows "(detect forest cfg data (extract_features cfg data) = Inr r \<longrightarrow>
            same_shape (score_grid r) data
            \<and> (\<forall>i<nrows data. \<forall>j<ncols data.
                  isfinite (gat (score_grid r) i j)
                  \<and> (isnan (gat data i j) \<longrightarrow> gat (score_grid r) i j = Fin 0)))
         \<and> ((\<forall>p X. length (forest p X) = length X) \<longrightarrow> \<not> list_all isnan (concat data) \<longrightarrow>
              (\<exists>r. detect forest cfg data (extract_features cfg data) = Inr r))"
proof (intro conjI impI allI)
  assume run: "detect forest cfg data (extract_features cfg data) = Inr r"
  show "same_shape (score_grid r) data" by (rule detect_Inr(2)[OF run])
  fix i j assume i: "i < nrows data" and j: "j < ncols data"
  have "score_ok (gat data i j) (gat (score_grid r) i j)"
    by (rule grel_cell[OF detect_score_ok[OF assms run] assms i j])
  then show "isfinite (gat (score_grid r) i j)" 
    and "isnan (gat data i j) \<Longrightarrow> gat (score_grid r) i j = Fin 0"
    by (simp_all add: score_ok_def)
next
  assume "\<forall>p X. length (forest p X) = length X" and "\<not> list_all isnan (concat data)"
  then show "\<exists>r. detect forest cfg data (extract_features cfg data) = Inr r"
    by (intro detect_returns[OF assms]) auto
qed

lemma rect_two_cells: "rect two_cells"
  by (simp add: rect_def two_cells_def ncols_def)

lemma first_feature_forest_length: "\<forall>p X. length (first_feature_forest p X) = length X"
  by (simp add: first_feature_forest_def)

lemma rect_gap_cells: "rect gap_cells"
  by (simp add: rect_def gap_cells_def ncols_def)

theorem combined_score_finite_and_zero_at_nodata_witness:
  "\<exists>r. detect first_feature_forest empty_config gap_cells (extract_features empty_config gap_cells) = Inr r
      \<and> same_shape (score_grid r) gap_cells
      \<and> isfinite (gat (score_grid r) 0 0) \<and> gat (score_grid r) 0 1 = Fin 0
      \<and> isfinite (gat (score_grid r) 0 2)"
proof -
  have nn: "\<not> list_all isnan (concat gap_cells)" by (simp add: gap_cells_def)
  obtain r where r: "detect first_feature_forest empty_config gap_cells
      (extract_features empty_config gap_cells) = Inr r"
    using combined_score_finite_and_zero_at_nodata[OF rect_gap_cells, of first_feature_forest empty_config]
      first_feature_forest_length nn by blast
  have d: "nrows gap_cells = 1" "ncols gap_cells = 3" "isnan (gat gap_cells 0 1)"
    by (simp_all add: nrows_def ncols_def gap_cells_def gat_def)
  show ?thesis
    using combined_score_finite_and_zero_at_nodata[OF rect_gap_cells, of first_feature_forest empty_config r] r d
    by (intro exI[of _ r]) simp
qed

text \<open>
  Claim C2, amended. When no configured detector weight is negative and neither z-score
  threshold is negative, every cell of the combined score that \<open>detect\<close> returns lies in
  the unit interval.
\<close>

theorem combined_score_in_unit_interval:
  assumes "rect data"
    and "\<forall>k w. get_or (scoring_weights cfg) default_weights k = Some w \<longrightarrow> 0 \<le> w"
    and "0 \<le> get_or (mad_threshold cfg) 3.5" and "0 \<le> get_or (zscore_threshold cfg) 3"
  shows "(detect forest cfg data (extract_features cfg data) = Inr r \<longrightarrow>
            same_shape (score_grid r) data
            \<and> (\<forall>i<nrows data. \<forall>j<ncols data.
                  \<exists>x. gat (score_grid r) i j = Fin x \<and> 0 \<le> x \<and> x \<le> 1))
         \<and> ((\<forall>p X. length (forest p X) = length X) \<longrightarrow> \<not> list_all isnan (concat data) \<longrightarrow>
              (\<exists>r. detect forest cfg data (extract_features cfg data) = Inr r))"
proof (intro conjI impI allI)
  assume run: "detect forest cfg data (extract_features cfg data) = Inr r"
  show "same_shape (score_grid r) data" by (rule detect_Inr(2)[OF run])
  fix i j assume i: "i < nrows data" and j: "j < ncols data"
  have w: "0 \<le> dict_get (get_or (scoring_weights cfg) default_weights) k 0.1" for k
    using assms(2) by (auto simp: dict_get_def split: option.splits)
  have "grel (\<lambda>d. in_unit) data (score_grid r)"
    by (rule detect_unit[OF assms(1) run assms(3,4)]) (rule w)
  then have "in_unit (gat (score_grid r) i j)"
    using assms(1) i j by (rule grel_cell)
  then show "\<exists>x. gat (score_grid r) i j = Fin x \<and> 0 \<le> x \<and> x \<le> 1"
    by (cases "gat (score_grid r) i j") auto
next
  assume "\<forall>p X. length (forest p X) = length X" and "\<not> list_all isnan (concat data)"
  then show "\<exists>r. detect forest cfg data (extract_features cfg data) = Inr r"
    by (intro detect_returns[OF assms(1)]) auto
qed

lemma default_weights_nonneg:
  "\<forall>k w. get_or (scoring_weights empty_config) default_weights k = Some w \<longrightarrow> 0 \<le> w"
  by (auto simp: empty_config_def get_or_def default_weights_def split: if_splits)

theorem combined_score_in_unit_interval_witness:
  "\<exists>r. detect first_feature_forest empty_config two_cells (extract_features empty_config two_cells) = Inr r
      \<and> same_shape (score_grid r) two_cells
      \<and> (\<exists>x. gat (score_grid r) 0 0 = Fin x \<and> 0 \<le> x \<and> x \<le> 1)
      \<and> (\<exists>x. gat (score_grid r) 0 1 = Fin x \<and> 0 \<le> x \<and> x \<le> 1)"
proof -
  have nn: "\<not> list_all isnan (concat two_cells)" by (simp add: two_cells_def)
  have t: "0 \<le> get_or (mad_threshold empty_config) 3.5" "0 \<le> get_or (zscore_threshold empty_config) 3"
    by (simp_all add: empty_config_def get_or_def)
  note inst = combined_score_in_unit_interval[OF rect_two_cells default_weights_nonneg t,
      of first_feature_forest]
  obtain r where r: "detect first_feature_forest empty_config two_cells
      (extract_features empty_config two_cells) = Inr r"
    using inst first_feature_forest_length nn by blast
  have d: "nrows two_cells = 1" "ncols two_cells = 2" by (simp_all add: nrows_def ncols_def two_cells_def)
  show ?thesis
    using inst[of r] r d by (intro exI[of _ r]) simp
qed

lemma local_mean_var_two_cells:
  "local_mean_var 3 two_cells = ([[Fin 1, Fin 1]], [[Fin 1, Fin 1]])"
  by code_simp

lemma zscore_two_cells:
  "neighborhood_window_size cfg = Some 3 \<Longrightarrow> compute_local_zscore cfg two_cells = [[Fin (- 1), Fin 1]]"
  unfolding compute_local_zscore_def Let_def
  by (simp add: get_or_def local_mean_var_two_cells)
     (simp add: two_cells_def gmap_def gmap2_def set_nan_where_invalid_def np_maximum_def fsub_def)

lemma detect_negative_weight:
  "detect null_forest negative_weight_config two_cells
     (extract_features negative_weight_config two_cells) =
   Inr \<lparr>anomaly_mask = [[False, False]], score_grid = [[Fin (- (1 / 3)), Fin (- (1 / 3))]],
        detector_results = [(''zscore'', [[Fin (1 / 3), Fin (1 / 3)]])]\<rparr>"
proof -
  have z: "compute_local_zscore negative_weight_config two_cells = [[Fin (- 1), Fin 1]]"
    by (rule zscore_two_cells)
       (simp add: negative_weight_config_def zscore_only_config_def empty_config_def)
  have zs: "run_zscore_detector negative_weight_config [[Fin (- 1), Fin 1]] = [[Fin (1 / 3), Fin (1 / 3)]]"
    by (simp add: run_zscore_detector_def negative_weight_config_def zscore_only_config_def
        empty_config_def get_or_def gmap_def np_minimum_def)
  have c: "combine_scores negative_weight_config [(''zscore'', [[Fin (1 / 3), Fin (1 / 3)]])] (shape two_cells)
      = Inr [[Fin (- (1 / 3)), Fin (- (1 / 3))]]"
    by (simp add: combine_scores_def negative_weight_config_def zscore_only_config_def
        empty_config_def get_or_def dict_get_def shape_def nrows_def ncols_def two_cells_def
        zeros_def same_shape_def gmap2_def gmap_def)
  show ?thesis
    unfolding detect_def
    by (simp add: map_of_z_score z zs c)
       (simp add: negative_weight_config_def zscore_only_config_def empty_config_def get_or_def
        anomaly_threshold_def two_cells_def gmap_def gmap2_def same_shape_def)
qed

lemma detect_negative_threshold:
  "detect null_forest negative_threshold_config two_cells
     (extract_features negative_threshold_config two_cells) =
   Inr \<lparr>anomaly_mask = [[False, False]], score_grid = [[Fin (- (1 / 3)), Fin (- (1 / 3))]],
        detector_results = [(''zscore'', [[Fin (- (1 / 3)), Fin (- (1 / 3))]])]\<rparr>"
proof -
  have z: "compute_local_zscore negative_threshold_config two_cells = [[Fin (- 1), Fin 1]]"
    by (rule zscore_two_cells)
       (simp add: negative_threshold_config_def zscore_only_config_def empty_config_def)
  have zs: "run_zscore_detector negative_threshold_config [[Fin (- 1), Fin 1]] = [[Fin (- (1 / 3)), Fin (- (1 / 3))]]"
    by (simp add: run_zscore_detector_def negative_threshold_config_def zscore_only_config_def
        empty_config_def get_or_def gmap_def np_minimum_def)
  have c: "combine_scores negative_threshold_config [(''zscore'', [[Fin (- (1 / 3)), Fin (- (1 / 3))]])] (shape two_cells)
      = Inr [[Fin (- (1 / 3)), Fin (- (1 / 3))]]"
    by (simp add: combine_scores_def negative_threshold_config_def zscore_only_config_def
        empty_config_def get_or_def dict_get_def shape_def nrows_def ncols_def two_cells_def
        zeros_def same_shape_def gmap2_def gmap_def default_weights_def)
  show ?thesis
    unfolding detect_def
    by (simp add: map_of_z_score z zs c)
       (simp add: negative_threshold_config_def zscore_only_config_def empty_config_def get_or_def
        anomaly_threshold_def two_cells_def gmap_def gmap2_def same_shape_def)
qed

text \<open>
  Claim C2 as stated, for every configuration of weights and thresholds, fails. On the grid
  with the two depths 0 and 2 the local z-scores are \<open>-1\<close> and \<open>1\<close>; with the z-score
  detector alone, the weight \<open>-1\<close> turns its score \<open>1/3\<close> into the combined score \<open>-1/3\<close>
  (the total weight is not positive, so nothing is divided), and the threshold \<open>-3\<close> makes the
  detector's own score \<open>-1/3\<close>. Both cells are valid.
\<close>

theorem combined_score_negative_counterexample:
  "gat two_cells 0 0 = Fin 0
   \<and> detect null_forest negative_weight_config two_cells
       (extract_features negative_weight_config two_cells) =
     Inr \<lparr>anomaly_mask = [[False, False]], score_grid = [[Fin (- (1 / 3)), Fin (- (1 / 3))]],
          detector_results = [(''zscore'', [[Fin (1 / 3), Fin (1 / 3)]])]\<rparr>
   \<and> detect null_forest negative_threshold_config two_cells
       (extract_features negative_threshold_config two_cells) =
     Inr \<lparr>anomaly_mask = [[False, False]], score_grid = [[Fin (- (1 / 3)), Fin (- (1 / 3))]],
          detector_results = [(''zscore'', [[Fin (- (1 / 3)), Fin (- (1 / 3))]])]\<rparr>
   \<and> \<not> in_unit (gat [[Fin (- (1 / 3)), Fin (- (1 / 3))]] 0 0)"
  using detect_negative_weight detect_negative_threshold
  by (simp add: two_cells_def gat_def)

subsection \<open>A grid without valid cells\<close>

lemma rect_all_nan3: "rect all_nan3"
  by (simp add: rect_def all_nan3_def ncols_def)

text \<open>
  Claim C3. On a grid with no valid cell the statistics are the undefined record, as
  claimed, but detection does not return: with the isolation forest enabled, as it is by
  default, the sample matrix has no rows and fitting the forest raises ValueError, so no
  anomaly list is produced.
\<close>

theorem all_nodata_grid_raises:
  "compute_statistics all_nan3 =
     \<lparr>z_min = None, z_max = None, z_mean = None, z_std = None, z_median = None,
      valid_count = 0, nodata_count = 9, total_count = 9\<rparr>
   \<and> detect forest empty_config all_nan3 (extract_features empty_config all_nan3) = Inl ValueError"
proof -
  have "detect forest empty_config all_nan3 (extract_features empty_config all_nan3) = Inl ValueError"
    by (rule detect_all_nan[OF rect_all_nan3])
       (simp_all add: all_nan3_def empty_config_def get_or_def)
  moreover have "compute_statistics all_nan3 =
     \<lparr>z_min = None, z_max = None, z_mean = None, z_std = None, z_median = None,
      valid_count = 0, nodata_count = 9, total_count = 9\<rparr>"
    by (simp add: compute_statistics_def all_nan3_def)
  ultimately show ?thesis by simp
qed

subsection \<open>Polygonization\<close>

lemma set_insert_by_priority: "set (insert_by_priority a bs) = insert a (set bs)"
  by (induction bs) auto

lemma set_sort_by_priority: "set (sort_by_priority xs) = set xs"
  unfolding sort_by_priority_def by (induction xs) (auto simp: set_insert_by_priority)

lemma scan_components_mem:
  assumes "scan_components body items acc = Inr out" "a \<in> set out"
  shows "a \<in> set acc
       \<or> (\<exists>label_id obj n. (label_id, Some obj) \<in> set items \<and> body label_id obj n = Inr (Some a))"
  using assms
proof (induction items arbitrary: acc)
  case Nil
  then show ?case by simp
next
  case (Cons item items)
  obtain label_id obj where item: "item = (label_id, obj)" by (cases item)
  show ?case
  proof (cases "label_id > 2000")
    case True
    then show ?thesis using Cons.prems item by simp
  next
    case small: False
    show ?thesis
    proof (cases obj)
      case None
      then have "scan_components body items acc = Inr out" using Cons.prems(1) item small by simp
      from Cons.IH[OF this Cons.prems(2)] show ?thesis
        by (elim disjE exE conjE) (blast intro: list.set_intros(2))+
    next
      case (Some sl)
      show ?thesis
      proof (cases "length acc \<ge> 2000")
        case True
        then show ?thesis using Cons.prems item small Some by simp
      next
        case room: False
        show ?thesis
        proof (cases "body label_id sl (length acc)")
          case (Inl e)
          then show ?thesis using Cons.prems item small Some room by simp
        next
          case (Inr r)
          show ?thesis
          proof (cases r)
            case None
            then have "scan_components body items acc = Inr out"
              using Cons.prems(1) item small Some room Inr by simp
            from Cons.IH[OF this Cons.prems(2)] show ?thesis
              by (elim disjE exE conjE) (blast intro: list.set_intros(2))+
          next
            case (Some b)
            then have "scan_components body items (acc @ [b]) = Inr out"
              using Cons.prems(1) item small \<open>obj = Some sl\<close> room Inr by simp
            from Cons.IH[OF this Cons.prems(2)]
            consider "a \<in> set acc" | "a = b"
              | l ob k where "(l, Some ob) \<in> set items" "body l ob k = Inr (Some a)"
              by auto
            then show ?thesis
            proof cases
              case 1
              then show ?thesis by blast
            next
              case 2
              have "(label_id, Some sl) \<in> set (item # items)"
                using item \<open>obj = Some sl\<close> by simp
              moreover have "body label_id sl (length acc) = Inr (Some a)"
                using Inr Some 2 by simp
              ultimately show ?thesis by blast
            next
              case 3
              then have "(l, Some ob) \<in> set (item # items)" by simp
              then show ?thesis using 3(2) by blast
            qed
          qed
        qed
      qed
    qed
  qed
qed

lemma polygonize_mem:
  assumes "polygonize lib env cfg scores md results data cts = Inr anomalies" "a \<in> set anomalies"
  shows "\<exists>label_id obj n.
           (label_id, Some obj) \<in> set (zip [1..<Suc (length (find_objects (fst (ndimage_label (region_mask cfg scores)))))]
                                       (find_objects (fst (ndimage_label (region_mask cfg scores)))))
           \<and> component_anomaly lib env cfg scores md results data cts
                (fst (ndimage_label (region_mask cfg scores))) label_id obj n = Inr (Some a)"
proof -
  obtain labeled num where l: "ndimage_label (region_mask cfg scores) = (labeled, num)"
    by (cases "ndimage_label (region_mask cfg scores)")
  let ?items = "zip [1..<Suc (length (find_objects labeled))] (find_objects labeled)"
  let ?body = "component_anomaly lib env cfg scores md results data cts labeled"
  have nz: "num \<noteq> 0" using assms l by (auto simp: polygonize_def Let_def split: if_splits)
  have "\<exists>out. scan_components ?body ?items [] = Inr out \<and> anomalies = sort_by_priority out"
    using assms(1) l nz by (auto simp: polygonize_def Let_def split: sum.splits)
  then obtain out where out: "scan_components ?body ?items [] = Inr out"
      and s: "anomalies = sort_by_priority out" by blast
  have "a \<in> set out" using assms(2) s by (simp add: set_sort_by_priority)
  from scan_components_mem[where body = ?body, OF out this] show ?thesis using l by simp
qed

lemma component_anomaly_Some:
  assumes "component_anomaly lib env cfg scores md results data cts labeled label_id obj n = Inr (Some a)"
  shows "neighbor_count a = component_pixel_count labeled label_id obj
    \<and> exp_pixel_count (explanation a) = component_pixel_count labeled label_id obj
    \<and> min_area_of cfg \<le> int (component_pixel_count labeled label_id obj)
    \<and> (\<exists>local_scores. bool_index (slice_box scores obj) (gmap (\<lambda>l. l = label_id) (slice_box labeled obj))
             = Inr local_scores \<and> anomaly_probability a = np_nanmean local_scores)
    \<and> confidence_level a = confidence_of (confidence_thresholds cfg) (anomaly_probability a)
    \<and> anomaly_id a = uuid4 env (2 * n) \<and> created_at a = utcnow env n"
proof -
  let ?cm = "gmap (\<lambda>l. l = label_id) (slice_box labeled obj)"
  have big: "\<not> int (length (filter id (concat ?cm))) < min_area_of cfg"
    using assms unfolding component_anomaly_def Let_def by (simp split: if_splits)
  obtain geom where g: "region_geometry lib cfg md ?cm obj = Some geom"
    using assms big unfolding component_anomaly_def Let_def
    by (cases "region_geometry lib cfg md ?cm obj") simp_all
  obtain local_scores where ls: "bool_index (slice_box scores obj) ?cm = Inr local_scores"
    using assms big g unfolding component_anomaly_def Let_def
    by (cases "bool_index (slice_box scores obj) ?cm") simp_all
  obtain depths where dp: "bool_index (slice_box data obj) ?cm = Inr depths"
    using assms big g ls unfolding component_anomaly_def Let_def
    by (cases "bool_index (slice_box data obj) ?cm") simp_all
  obtain ds where ds: "detector_means results obj ?cm = Inr ds"
    using assms big g ls dp unfolding component_anomaly_def Let_def
    by (cases "detector_means results obj ?cm") simp_all
  have a: "Some a = Some (
     \<lparr>anomaly_id = uuid4 env (2 * n), run_id = uuid4 env (2 * n + 1),
      centroid_x = fst (lib_centroid lib geom), centroid_y = snd (lib_centroid lib geom),
      geometry = geom,
      area_sq_meters = real (length (filter id (concat ?cm)))
         * \<bar>fst (get_or (md_resolution md) (1, 1)) * snd (get_or (md_resolution md) (1, 1))\<bar>,
      anomaly_type = infer_anomaly_type ds (filter (\<lambda>v. \<not> isnan v) depths) data,
      anomaly_probability = np_nanmean local_scores,
      confidence_level = confidence_of (confidence_thresholds cfg) (np_nanmean local_scores),
      qc_priority = calculate_priority cfg (np_nanmean local_scores)
         (real (length (filter id (concat ?cm)))
           * \<bar>fst (get_or (md_resolution md) (1, 1)) * snd (get_or (md_resolution md) (1, 1))\<bar>)
         (filter (\<lambda>v. \<not> isnan v) depths),
      explanation = \<lparr>exp_primary_reason = get_primary_reason ds
             (map fst (filter (\<lambda>ds. fgt (snd ds) (Fin (anomaly_threshold cfg))) ds)),
         exp_features = ds, exp_thresholds = cts,
         exp_detector_flags = map fst (filter (\<lambda>ds. fgt (snd ds) (Fin (anomaly_threshold cfg))) ds),
         exp_pixel_count = length (filter id (concat ?cm))\<rparr>,
      local_depth_mean = (if length (filter (\<lambda>v. \<not> isnan v) depths) > 0
                          then Some (np_mean (filter (\<lambda>v. \<not> isnan v) depths)) else None),
      local_depth_std = (if length (filter (\<lambda>v. \<not> isnan v) depths) > 0
                          then Some (np_std (filter (\<lambda>v. \<not> isnan v) depths)) else None),
      neighbor_count = length (filter id (concat ?cm)), review_decision = PENDING,
      created_at = utcnow env n\<rparr> :: 'a Anomaly)" (is "_ = Some ?rec")
    using assms unfolding component_anomaly_def Let_def
    by (simp only: big g ls dp ds if_False option.case sum.case sum.inject)
  then have aeq: "a = ?rec" by (simp only: option.inject)
  have "neighbor_count ?rec = length (filter id (concat ?cm))"
    "exp_pixel_count (explanation ?rec) = length (filter id (concat ?cm))"
    "anomaly_probability ?rec = np_nanmean local_scores"
    "confidence_level ?rec = confidence_of (confidence_thresholds cfg) (np_nanmean local_scores)"
    "anomaly_id ?rec = uuid4 env (2 * n)" "created_at ?rec = utcnow env n"
    by simp_all
  then show ?thesis
    unfolding component_pixel_count_def aeq using big ls by simp
qed



lemma rect_tabulate2: "rect (tabulate2 h w f)"
  by (cases h) (simp_all add: rect_def list_all_iff tabulate2_def ncols_def upt_conv_Cons del: upt_Suc)


lemma inside_dims: "inside g i j \<longleftrightarrow> 0 \<le> i \<and> i < int (nrows g) \<and> 0 \<le> j \<and> j < int (ncols g)"
  by (simp add: inside_def)










lemma bounding_box_contains:
  assumes "bounding_box cells = Some (r0, r1, c0, c1)" "p \<in> set cells"
  shows "r0 \<le> fst p \<and> fst p < r1 \<and> c0 \<le> snd p \<and> snd p < c1"
proof -
  have ne: "cells \<noteq> []" using assms(2) by auto
  have b: "r0 = Min (set (map fst cells))" "r1 = Suc (Max (set (map fst cells)))"
    "c0 = Min (set (map snd cells))" "c1 = Suc (Max (set (map snd cells)))"
    using assms(1) ne by (simp_all add: bounding_box_def)
  have "fst p \<in> set (map fst cells)" "snd p \<in> set (map snd cells)" using assms(2) by auto
  then show ?thesis unfolding b by (simp add: less_Suc_eq_le)
qed

lemma find_objects_item:
  assumes "(label_id, ob) \<in> set (zip [1..<Suc (length (find_objects labeled))] (find_objects labeled))"
  shows "1 \<le> label_id \<and> ob = bounding_box (cells_labelled labeled label_id)"
proof -
  let ?M = "fold max (concat labeled) 0"
  have len: "length (find_objects labeled) = ?M" by (simp add: find_objects_def)
  have "zip [1..<Suc ?M] (find_objects labeled)
      = map (\<lambda>k. (k, bounding_box (cells_labelled labeled k))) [1..<Suc ?M]"
    unfolding find_objects_def by (simp add: zip_map2 zip_same_conv_map del: upt_Suc)
  then show ?thesis using assms unfolding len by (auto simp del: upt_Suc)
qed

lemma set_all_cells: "set (all_cells h w) = {p. fst p < h \<and> snd p < w}"
  by (auto simp: all_cells_def)

lemma in_grid_slice:
  assumes "i < length g" "j < length (g ! i)" "r0 \<le> i" "i < r1" "c0 \<le> j" "j < c1"
  shows "g ! i ! j \<in> set (concat (grid_slice g r0 r1 c0 c1))"
proof -
  have row: "take (r1 - r0) (drop r0 g) ! (i - r0) = g ! i" using assms by simp
  have "i - r0 < length (take (r1 - r0) (drop r0 g))" using assms by (simp add: diff_less_mono)
  then have rin: "g ! i \<in> set (take (r1 - r0) (drop r0 g))" using row by (metis nth_mem)
  have cell: "take (c1 - c0) (drop c0 (g ! i)) ! (j - c0) = g ! i ! j" using assms by simp
  have "j - c0 < length (take (c1 - c0) (drop c0 (g ! i)))" using assms by (simp add: diff_less_mono)
  then have "g ! i ! j \<in> set (take (c1 - c0) (drop c0 (g ! i)))" using cell by (metis nth_mem)
  then show ?thesis using rin by (auto simp: grid_slice_def)
qed

lemma component_nonempty:
  assumes "rect labeled" "bounding_box (cells_labelled labeled label_id) = Some obj"
  shows "1 \<le> component_pixel_count labeled label_id obj"
proof -
  obtain r0 r1 c0 c1 where obj: "obj = (r0, r1, c0, c1)" by (cases obj)
  have ne: "cells_labelled labeled label_id \<noteq> []" using assms(2) by (auto simp: bounding_box_def)
  then obtain p where p: "p \<in> set (cells_labelled labeled label_id)" by (cases "cells_labelled labeled label_id") auto
  then have lab: "gat labeled (fst p) (snd p) = label_id" and i: "fst p < nrows labeled"
      and j: "snd p < ncols labeled"
    by (auto simp: cells_labelled_def set_all_cells)
  have j': "snd p < length (labeled ! fst p)" using rect_row_length[OF assms(1) i] j by simp
  have b: "r0 \<le> fst p \<and> fst p < r1 \<and> c0 \<le> snd p \<and> snd p < c1"
    using bounding_box_contains[OF assms(2)[unfolded obj] p] .
  have "labeled ! fst p ! snd p \<in> set (concat (grid_slice labeled r0 r1 c0 c1))"
    using in_grid_slice[of "fst p" labeled "snd p" r0 r1 c0 c1] i j' b by (simp add: nrows_def)
  then have "label_id \<in> set (concat (slice_box labeled obj))"
    using lab by (simp add: gat_def slice_box_def obj)
  then have "True \<in> set (concat (gmap (\<lambda>l. l = label_id) (slice_box labeled obj)))"
    by (auto simp: concat_gmap)
  then have "filter id (concat (gmap (\<lambda>l. l = label_id) (slice_box labeled obj))) \<noteq> []"
    by (auto simp: filter_empty_conv)
  then show ?thesis
    unfolding component_pixel_count_def by (simp add: Suc_le_eq)
qed




lemma rect_labeled: "rect (fst (ndimage_label m))"
  by (simp add: ndimage_label_def Let_def rect_tabulate2)

lemma anomaly_region:
  assumes "polygonize lib env cfg scores md results data cts = Inr anomalies" "a \<in> set anomalies"
  shows "\<exists>label_id obj local_scores.
           1 \<le> label_id
           \<and> (label_id, Some obj) \<in> set (zip [1..<Suc (length (find_objects (fst (ndimage_label (region_mask cfg scores)))))]
                                       (find_objects (fst (ndimage_label (region_mask cfg scores)))))
           \<and> neighbor_count a = component_pixel_count (fst (ndimage_label (region_mask cfg scores))) label_id obj
           \<and> min_area_of cfg \<le> int (neighbor_count a)
           \<and> 1 \<le> neighbor_count a
           \<and> bool_index (slice_box scores obj)
                (gmap (\<lambda>l. l = label_id) (slice_box (fst (ndimage_label (region_mask cfg scores))) obj))
              = Inr local_scores
           \<and> length local_scores = neighbor_count a
           \<and> anomaly_probability a = np_nanmean local_scores"
proof -
  let ?labeled = "fst (ndimage_label (region_mask cfg scores))"
  obtain label_id obj n where it: "(label_id, Some obj) \<in> set (zip [1..<Suc (length (find_objects ?labeled))]
                                       (find_objects ?labeled))"
    and ca: "component_anomaly lib env cfg scores md results data cts ?labeled label_id obj n = Inr (Some a)"
    using polygonize_mem[OF assms] by blast
  note props = component_anomaly_Some[OF ca]
  obtain local_scores where ls: "bool_index (slice_box scores obj)
      (gmap (\<lambda>l. l = label_id) (slice_box ?labeled obj)) = Inr local_scores"
      "anomaly_probability a = np_nanmean local_scores"
    using props by blast
  have fi: "1 \<le> label_id" "Some obj = bounding_box (cells_labelled ?labeled label_id)"
    using find_objects_item[OF it] by simp_all
  have ne: "1 \<le> component_pixel_count ?labeled label_id obj"
    by (rule component_nonempty[OF rect_labeled fi(2)[symmetric]])
  have sh: "same_shape (slice_box scores obj) (gmap (\<lambda>l. l = label_id) (slice_box ?labeled obj))"
    and sel: "local_scores = select_mask (slice_box scores obj) (gmap (\<lambda>l. l = label_id) (slice_box ?labeled obj))"
    using ls(1) by (simp_all add: bool_index_def split: if_splits)
  have "length local_scores = component_pixel_count ?labeled label_id obj"
    unfolding sel component_pixel_count_def by (rule length_select_mask[OF sh])
  then show ?thesis using it props ls fi(1) ne by (intro exI[of _ label_id] exI[of _ obj] exI[of _ local_scores]) simp
qed





lemma label_one_pixel: "ndimage_label [[True]] = ([[1]], 1)"
  by code_simp

lemma objects_one_pixel: "find_objects [[1]] = [Some (0, 1, 0, 1)]"
  by code_simp

lemma region_mask_one_pixel: "region_mask one_pixel_config [[Fin 1]] = [[True]]"
  by (simp add: region_mask_def one_pixel_config_def empty_config_def min_area_of_def get_or_def
      anomaly_threshold_def gmap_def)

lemma median_one_pixel: "np_nanmedian [Fin 5] = Fin 5"
  by code_simp

lemma component_one_pixel:
  "component_anomaly cell_lib (counting_env k) one_pixel_config [[Fin 1]] plain_metadata []
     [[Fin 5]] [] [[1]] 1 (0, 1, 0, 1) 0 = Inr (Some (one_pixel_anomaly k))"
  by (simp add: component_anomaly_def Let_def slice_box_def grid_slice_def gmap_def
      one_pixel_config_def empty_config_def min_area_of_def get_or_def anomaly_threshold_def
      region_geometry_def cell_lib_def plain_metadata_def prepare_transformer_def crs_in_degrees_def
      bool_index_def same_shape_def select_mask_def np_nanmean_def np_mean_def fsum_def
      confidence_of_def confidence_thresholds_def dict_get_def calculate_priority_def
      default_priority_weights_def infer_anomaly_type_def median_one_pixel np_std_def fsquare_def
      fsub_def get_primary_reason_def counting_env_def flt_def one_pixel_anomaly_def)

lemma polygonize_one_pixel:
  "polygonize cell_lib (counting_env k) one_pixel_config [[Fin 1]] plain_metadata [] [[Fin 5]] []
     = Inr [one_pixel_anomaly k]"
  by (simp add: polygonize_def region_mask_one_pixel label_one_pixel [simplified]
      objects_one_pixel [simplified] component_one_pixel [simplified] sort_by_priority_def)

text \<open>
  Claim C8. Every anomaly that \<open>polygonize\<close> returns is built from a labelled component of
  the region mask whose pixel count, recorded as the anomaly's \<open>neighbor_count\<close>, is at
  least the configured minimum area; the minimum is 25 when the configuration gives none.
\<close>

theorem small_regions_excluded:
  assumes "polygonize lib env cfg scores md results data cts = Inr anomalies" "a \<in> set anomalies"
  shows "min_area_of cfg \<le> int (neighbor_count a)
       \<and> (\<exists>label_id obj_slice.
            (label_id, Some obj_slice)
               \<in> set (zip [1..<Suc (length (find_objects (fst (ndimage_label (region_mask cfg scores)))))]
                         (find_objects (fst (ndimage_label (region_mask cfg scores)))))
            \<and> neighbor_count a =
                component_pixel_count (fst (ndimage_label (region_mask cfg scores))) label_id obj_slice)
       \<and> (min_area_pixels cfg = None \<longrightarrow> min_area_of cfg = 25)"
proof -
  from anomaly_region[OF assms] obtain label_id obj where
    it: "(label_id, Some obj)
       \<in> set (zip [1..<Suc (length (find_objects (fst (ndimage_label (region_mask cfg scores)))))]
                 (find_objects (fst (ndimage_label (region_mask cfg scores)))))"
    and cnt: "neighbor_count a = component_pixel_count (fst (ndimage_label (region_mask cfg scores))) label_id obj"
    and big: "min_area_of cfg \<le> int (neighbor_count a)"
    by blast
  have dflt: "min_area_pixels cfg = None \<longrightarrow> min_area_of cfg = 25"
    by (simp add: min_area_of_def get_or_def)
  from it cnt big dflt show ?thesis by blast
qed

theorem small_regions_excluded_witness:
  "min_area_of one_pixel_config \<le> int (neighbor_count (one_pixel_anomaly 0))
   \<and> (\<exists>label_id obj_slice.
        (label_id, Some obj_slice)
           \<in> set (zip [1..<Suc (length (find_objects (fst (ndimage_label (region_mask one_pixel_config [[Fin 1]])))))]
                     (find_objects (fst (ndimage_label (region_mask one_pixel_config [[Fin 1]])))))
        \<and> neighbor_count (one_pixel_anomaly 0) =
            component_pixel_count (fst (ndimage_label (region_mask one_pixel_config [[Fin 1]]))) label_id obj_slice)
   \<and> min_area_of empty_config = 25"
  using small_regions_excluded [OF polygonize_one_pixel [of 0], of "one_pixel_anomaly 0"]
  by (simp add: min_area_of_def get_or_def empty_config_def)



end
